theory Spec2Isabelle
  imports Main "HOL-Library.Sublist" "HOL-Library.Multiset"
begin

section \<open>The cancel-fulfillment route handler\<close>

text \<open>
  Source: \<^verbatim>\<open>packages/medusa/src/api/routes/admin/orders/cancel-fulfillment.ts\<close>.
  The file holds the route handler (the default export) and the exported helper
  \<^verbatim>\<open>adjustInventoryForCancelledFulfillment\<close>. Everything else (the services, the
  transaction manager, \<^verbatim>\<open>promiseAll\<close>, \<^verbatim>\<open>cleanResponseData\<close>) is a collaborator that the
  file only calls.
\<close>

subsection \<open>Values and entities\<close>

text \<open>
  A JavaScript value that is a string, \<^verbatim>\<open>null\<close> or \<^verbatim>\<open>undefined\<close>: the type of the id
  columns the handler tests. \<open>truthy\<close> is JavaScript's conversion to a boolean on
  these values: only a non-empty string is truthy.
\<close>

datatype js_str = JSUndefined | JSNull | JSString string

fun truthy :: "js_str \<Rightarrow> bool" where
  "truthy (JSString s) = (s \<noteq> [])"
| "truthy JSNull = False"
| "truthy JSUndefined = False"

text \<open>The fields of the entities that the file reads.\<close>

record LineItem =
  variant_id :: js_str

record FulfillmentItem =
  item :: LineItem
  quantity :: int

record Fulfillment =
  order_id :: js_str
  location_id :: js_str
  items :: "FulfillmentItem list"

text \<open>The second argument of \<^verbatim>\<open>fulfillmentService.retrieve\<close>.\<close>

record FindConfig =
  relations :: "string list"

subsection \<open>Thrown values\<close>

text \<open>
  Modelled from the spec: the kinds of \<^verbatim>\<open>MedusaError\<close> (package medusa-core-utils, not
  under src/) are those of the spec's error taxonomy: not found, invalid state, invalid
  request, unauthorized, internal. The handler itself only ever builds \<open>NOT_FOUND\<close>.
\<close>

datatype MedusaErrorType = NOT_FOUND | INVALID_STATE | INVALID_REQUEST | UNAUTHORIZED | INTERNAL

text \<open>
  A thrown value is a \<^verbatim>\<open>MedusaError\<close> (type and message) or any other value \<open>'x\<close>
  that a collaborator throws.
\<close>

datatype 'x thrown = MedusaError MedusaErrorType string | Other 'x

subsection \<open>Collaborators\<close>

text \<open>
  \<^verbatim>\<open>svc.withTransaction(m).f(args)\<close> is modelled as \<open>f svc m args\<close>: every service
  method takes the entity manager it runs under as its first argument, and a call made
  on the service as resolved from the container runs under \<open>DefaultManager\<close>.
\<close>

datatype manager = DefaultManager | TransactionManager

text \<open>
  A service method is a function of the database \<open>'w\<close>: it returns the value it
  resolves with or the value it rejects with, and the database it leaves behind.
\<close>

type_synonym ('w, 'x, 'a) effect = "'w \<Rightarrow> ('x thrown + 'a) \<times> 'w"

record ('w, 'x) FulfillmentService =
  retrieve :: "manager \<Rightarrow> string \<Rightarrow> FindConfig option \<Rightarrow> ('w, 'x, Fulfillment) effect"

record ('w, 'x, 'o, 'c, 'i) OrderService =
  cancelFulfillment :: "manager \<Rightarrow> string \<Rightarrow> ('w, 'x, 'o) effect"
  retrieveWithTotals :: "manager \<Rightarrow> string \<Rightarrow> 'c \<Rightarrow> 'i \<Rightarrow> ('w, 'x, 'o) effect"

record ('w, 'x) ProductVariantInventoryService =
  adjustInventory :: "manager \<Rightarrow> js_str \<Rightarrow> js_str \<Rightarrow> int \<Rightarrow> ('w, 'x, unit) effect"

text \<open>The inventory service is only tested for presence; it resolves to \<open>None\<close> when
  no inventory module is configured.\<close>

datatype IInventoryService = IInventoryService

record ('w, 'x, 'o, 'c, 'i) Scope =
  orderService :: "('w, 'x, 'o, 'c, 'i) OrderService"
  inventoryService :: "IInventoryService option"
  productVariantInventoryService :: "('w, 'x) ProductVariantInventoryService"
  fulfillmentService :: "('w, 'x) FulfillmentService"

record Params =
  id_param :: string
  fulfillment_id :: string

record ('w, 'x, 'o, 'c, 'i) Request =
  params :: Params
  scope :: "('w, 'x, 'o, 'c, 'i) Scope"
  retrieveConfig :: 'c
  req_includes :: 'i

subsection \<open>Runs\<close>

text \<open>
  The calls a run makes, in the order it makes them. \<open>TransactionBegin\<close>,
  \<open>TransactionCommit\<close> and \<open>TransactionRollback\<close> are the transaction manager's.
\<close>

datatype ('c, 'i) call =
    Retrieve manager string "FindConfig option"
  | CancelFulfillment manager string
  | AdjustInventory manager js_str js_str int
  | RetrieveWithTotals manager string 'c 'i
  | TransactionBegin
  | TransactionCommit
  | TransactionRollback

fun is_AdjustInventory :: "('c, 'i) call \<Rightarrow> bool" where
  "is_AdjustInventory (AdjustInventory m v l q) = True"
| "is_AdjustInventory c = False"

fun is_CancelFulfillment :: "('c, 'i) call \<Rightarrow> bool" where
  "is_CancelFulfillment (CancelFulfillment m f) = True"
| "is_CancelFulfillment c = False"

text \<open>
  The state of a run: the database; the calls made so far, in the order in which they
  were made; the values the collaborators have rejected with so far, in the order in
  which they rejected; and the order in which the runtime will let calls that are in
  flight together take their effect, as positions in the list of their promises. The
  handler reads none of the last three.
\<close>

record ('w, 'x, 'c, 'i) state =
  world :: 'w
  trace :: "('c, 'i) call list"
  rejected :: "'x thrown list"
  schedule :: "nat list"

type_synonym ('w, 'x, 'c, 'i, 'a) async =
  "('w, 'x, 'c, 'i) state \<Rightarrow> ('x thrown + 'a) \<times> ('w, 'x, 'c, 'i) state"

definition resolve :: "'a \<Rightarrow> ('w, 'x, 'c, 'i, 'a) async" where
  "resolve v s = (Inr v, s)"

definition throw :: "'x thrown \<Rightarrow> ('w, 'x, 'c, 'i, 'a) async" where
  "throw e s = (Inl e, s)"

text \<open>\<^verbatim>\<open>const v = await m; k(v)\<close>: a rejection of \<open>m\<close> leaves the function at once.\<close>

definition await :: "('w, 'x, 'c, 'i, 'a) async \<Rightarrow> ('a \<Rightarrow> ('w, 'x, 'c, 'i, 'b) async)
    \<Rightarrow> ('w, 'x, 'c, 'i, 'b) async" where
  "await m k s = (case m s of (Inl e, s') \<Rightarrow> (Inl e, s') | (Inr v, s') \<Rightarrow> k v s')"

text \<open>
  A call of a service method that is awaited on the spot: the call is logged, the
  method takes its effect on the database, and a rejection is logged.
\<close>

definition invoke :: "('c, 'i) call \<Rightarrow> ('w, 'x, 'a) effect \<Rightarrow> ('w, 'x, 'c, 'i, 'a) async" where
  "invoke c eff s =
     (case eff (world s) of
        (Inl e, w') \<Rightarrow>
          (Inl e, s\<lparr>world := w', trace := trace s @ [c], rejected := rejected s @ [e]\<rparr>)
      | (Inr v, w') \<Rightarrow>
          (Inr v, s\<lparr>world := w', trace := trace s @ [c]\<rparr>))"

text \<open>
  A promise is settled, with the value it was fulfilled with or the reason it was
  rejected with, or it stands for a call of a service method that is in flight: the call
  has been made and its effect on the database is still to come.
\<close>

datatype ('w, 'x, 'a) promise = Settled "'x thrown + 'a" | InFlight "('w, 'x, 'a) effect"

text \<open>
  A call of a service method whose promise is handed on instead of being waited for:
  the call is logged and is then in flight.
\<close>

definition start :: "('c, 'i) call \<Rightarrow> ('w, 'x, 'a) effect
    \<Rightarrow> ('w, 'x, 'c, 'i) state \<Rightarrow> ('w, 'x, 'a) promise \<times> ('w, 'x, 'c, 'i) state" where
  "start c eff s = (InFlight eff, s\<lparr>trace := trace s @ [c]\<rparr>)"

text \<open>
  The calls of the four service methods that the file uses. The entry in the log of
  calls is made from the very service, manager and arguments of the call.
\<close>

definition call_retrieve :: "('w, 'x) FulfillmentService \<Rightarrow> manager \<Rightarrow> string
    \<Rightarrow> FindConfig option \<Rightarrow> ('w, 'x, 'c, 'i, Fulfillment) async" where
  "call_retrieve service m fid config =
     invoke (Retrieve m fid config) (retrieve service m fid config)"

definition call_cancelFulfillment :: "('w, 'x, 'o, 'c, 'i) OrderService \<Rightarrow> manager \<Rightarrow> string
    \<Rightarrow> ('w, 'x, 'c, 'i, 'o) async" where
  "call_cancelFulfillment service m fid =
     invoke (CancelFulfillment m fid) (cancelFulfillment service m fid)"

definition call_retrieveWithTotals :: "('w, 'x, 'o, 'c, 'i) OrderService \<Rightarrow> manager \<Rightarrow> string
    \<Rightarrow> 'c \<Rightarrow> 'i \<Rightarrow> ('w, 'x, 'c, 'i, 'o) async" where
  "call_retrieveWithTotals service m oid config inc =
     invoke (RetrieveWithTotals m oid config inc) (retrieveWithTotals service m oid config inc)"

definition call_adjustInventory :: "('w, 'x) ProductVariantInventoryService \<Rightarrow> manager
    \<Rightarrow> js_str \<Rightarrow> js_str \<Rightarrow> int
    \<Rightarrow> ('w, 'x, 'c, 'i) state \<Rightarrow> ('w, 'x, unit) promise \<times> ('w, 'x, 'c, 'i) state" where
  "call_adjustInventory service m variant location qty =
     start (AdjustInventory m variant location qty)
       (adjustInventory service m variant location qty)"

text \<open>
  Modelled from the spec: \<^verbatim>\<open>manager.transaction\<close> (the unit-of-work manager, not under
  src/). The callback runs with the transaction's manager; when it rejects, the whole
  transaction is rolled back (the database is the one from before the transaction) and
  the rejection is passed on; when it resolves, the transaction commits.
\<close>

definition transaction :: "(manager \<Rightarrow> ('w, 'x, 'c, 'i, 'a) async) \<Rightarrow> ('w, 'x, 'c, 'i, 'a) async" where
  "transaction runInTransaction s =
     (case runInTransaction TransactionManager (s\<lparr>trace := trace s @ [TransactionBegin]\<rparr>) of
        (Inl e, s') \<Rightarrow>
          (Inl e, s'\<lparr>world := world s, trace := trace s' @ [TransactionRollback]\<rparr>)
      | (Inr v, s') \<Rightarrow>
          (Inr v, s'\<lparr>trace := trace s' @ [TransactionCommit]\<rparr>))"

text \<open>
  \<^verbatim>\<open>xs.map(async (x) => ...)\<close>: the async function is started on each element in list
  order. Each start runs the function up to its first \<^verbatim>\<open>await\<close> and yields a promise, so
  the calls are made in list order and all of them are in flight together afterwards.
\<close>

fun map_async :: "('a \<Rightarrow> ('w, 'x, 'c, 'i) state \<Rightarrow> ('w, 'x, 'b) promise \<times> ('w, 'x, 'c, 'i) state)
    \<Rightarrow> 'a list \<Rightarrow> ('w, 'x, 'c, 'i) state
    \<Rightarrow> ('w, 'x, 'b) promise list \<times> ('w, 'x, 'c, 'i) state" where
  "map_async f [] s = ([], s)"
| "map_async f (x # xs) s =
     (case f x s of (p, s1) \<Rightarrow>
        (case map_async f xs s1 of (ps, s2) \<Rightarrow> (p # ps, s2)))"

text \<open>
  The runtime lets the call at position \<open>i\<close> of a list of promises take its effect, if
  that call is still in flight: the method runs on the database as it is then, the
  promise is settled with the outcome, and a rejection is logged. The effect of one call
  is taken as a whole; calls whose database accesses interleave below that grain are
  outside this embedding.
\<close>

definition settle :: "nat \<Rightarrow> ('w, 'x, 'a) promise list \<times> ('w, 'x, 'c, 'i) state
    \<Rightarrow> ('w, 'x, 'a) promise list \<times> ('w, 'x, 'c, 'i) state" where
  "settle i = (\<lambda>(ps, s).
     if i < length ps
     then (case ps ! i of
             Settled r \<Rightarrow> (ps, s)
           | InFlight eff \<Rightarrow>
               (case eff (world s) of
                  (Inl e, w') \<Rightarrow>
                    (ps[i := Settled (Inl e)], s\<lparr>world := w', rejected := rejected s @ [e]\<rparr>)
                | (Inr v, w') \<Rightarrow>
                    (ps[i := Settled (Inr v)], s\<lparr>world := w'\<rparr>)))
     else (ps, s))"

text \<open>
  Waiting until every promise of a list is settled: the calls in flight take their
  effects in the order of the run's schedule, and those that the schedule leaves out
  follow in list order.
\<close>

definition allSettled :: "('w, 'x, 'a) promise list \<Rightarrow> ('w, 'x, 'c, 'i) state
    \<Rightarrow> ('w, 'x, 'a) promise list \<times> ('w, 'x, 'c, 'i) state" where
  "allSettled ps s = fold settle (schedule s @ [0..<length ps]) (ps, s)"

text \<open>The outcomes of the settled promises of a list, in list order.\<close>

fun settled :: "('w, 'x, 'a) promise list \<Rightarrow> ('x thrown + 'a) list" where
  "settled [] = []"
| "settled (Settled r # ps) = r # settled ps"
| "settled (InFlight eff # ps) = settled ps"

text \<open>The values of a list of outcomes, or the reason of its first rejection.\<close>

fun reject_first :: "('x thrown + 'b) list \<Rightarrow> 'x thrown + 'b list" where
  "reject_first [] = Inr []"
| "reject_first (Inl e # rs) = Inl e"
| "reject_first (Inr v # rs) =
     (case reject_first rs of Inl e \<Rightarrow> Inl e | Inr vs \<Rightarrow> Inr (v # vs))"

text \<open>
  Modelled from the spec: \<^verbatim>\<open>promiseAll\<close> (package @medusajs/utils, not under src/).
  It waits until every promise is settled; when all are fulfilled it resolves with their
  values, and otherwise it rejects with the reason of the first rejected promise in list
  order, unmodified, whatever the order in which the promises were settled.
\<close>

definition promiseAll :: "('w, 'x, 'a) promise list \<Rightarrow> ('w, 'x, 'c, 'i, 'a list) async" where
  "promiseAll promises s =
     (case allSettled promises s of (ps, s') \<Rightarrow> (reject_first (settled ps), s'))"

subsection \<open>The source file\<close>

text \<open>
  \<^verbatim>\<open>adjustInventoryForCancelledFulfillment(fulfillment, context)\<close>, lines 117 to 135. The
  context holds the product-variant-inventory service, here with the manager it was
  bound to. \<open>adjustItem\<close> is the arrow function given to \<^verbatim>\<open>map\<close>: for an item with a
  truthy \<^verbatim>\<open>variant_id\<close> it makes the call and waits for it, and nothing follows, so its
  promise is that of the call; for any other item it is fulfilled at once.
\<close>

definition adjustItem :: "Fulfillment \<Rightarrow> ('w, 'x) ProductVariantInventoryService \<times> manager
    \<Rightarrow> FulfillmentItem
    \<Rightarrow> ('w, 'x, 'c, 'i) state \<Rightarrow> ('w, 'x, unit) promise \<times> ('w, 'x, 'c, 'i) state" where
  "adjustItem fulfillment context fi =
     (case context of (service, m) \<Rightarrow>
        if truthy (variant_id (item fi))
        then call_adjustInventory service m
               (variant_id (item fi)) (location_id fulfillment) (quantity fi)
        else (\<lambda>s. (Settled (Inr ()), s)))"

definition adjustInventoryForCancelledFulfillment :: "Fulfillment
    \<Rightarrow> ('w, 'x) ProductVariantInventoryService \<times> manager \<Rightarrow> ('w, 'x, 'c, 'i, unit list) async" where
  "adjustInventoryForCancelledFulfillment fulfillment context s =
     (case map_async (adjustItem fulfillment context) (items fulfillment) s of
        (promises, s') \<Rightarrow> promiseAll promises s')"

text \<open>The message of the ownership error, line 88.\<close>

definition not_found_message :: "string \<Rightarrow> string \<Rightarrow> string" where
  "not_found_message fid oid =
     ''no fulfillment was found with the id: '' @ fid @ '' related to order: '' @ oid"

text \<open>The callback given to \<^verbatim>\<open>manager.transaction\<close>, lines 93 to 108.\<close>

definition transaction_callback :: "('w, 'x, 'o, 'c, 'i) Request \<Rightarrow> manager
    \<Rightarrow> ('w, 'x, 'c, 'i, unit) async" where
  "transaction_callback req transactionManager =
     await (call_cancelFulfillment (orderService (scope req)) transactionManager
              (fulfillment_id (params req)))
       (\<lambda>_.
     await (call_retrieve (fulfillmentService (scope req)) transactionManager
              (fulfillment_id (params req)) (Some \<lparr>relations = [''items'', ''items.item'']\<rparr>))
       (\<lambda>fulfillment.
     if truthy (location_id fulfillment) \<and> inventoryService (scope req) \<noteq> None
     then await (adjustInventoryForCancelledFulfillment fulfillment
                   (productVariantInventoryService (scope req), transactionManager))
            (\<lambda>_. resolve ())
     else resolve ()))"

text \<open>
  The handler, lines 71 to 115. \<^verbatim>\<open>cleanResponseData\<close> (utils/clean-response-data, not
  under src/) is a parameter. The value the handler resolves with is the object it hands
  to \<^verbatim>\<open>res.json\<close>, as the list of its keys and values.
\<close>

definition handler :: "('o \<Rightarrow> string list \<Rightarrow> 'o) \<Rightarrow> ('w, 'x, 'o, 'c, 'i) Request
    \<Rightarrow> ('w, 'x, 'c, 'i, (string \<times> 'o) list) async" where
  "handler cleanResponseData req =
     await (call_retrieve (fulfillmentService (scope req)) DefaultManager
              (fulfillment_id (params req)) None)
       (\<lambda>fulfillment.
     if order_id fulfillment \<noteq> JSString (id_param (params req))
     then throw (MedusaError NOT_FOUND
                   (not_found_message (fulfillment_id (params req)) (id_param (params req))))
     else
     await (transaction (transaction_callback req))
       (\<lambda>_.
     await (call_retrieveWithTotals (orderService (scope req)) DefaultManager
              (id_param (params req)) (retrieveConfig req) (req_includes req))
       (\<lambda>order.
     resolve [(''order'', cleanResponseData order [])])))"

subsection \<open>Notions used to state the properties\<close>

text \<open>The reasons of the rejections in a list of outcomes, in list order.\<close>

fun rejections :: "('x thrown + 'b) list \<Rightarrow> 'x thrown list" where
  "rejections [] = []"
| "rejections (Inl e # ps) = e # rejections ps"
| "rejections (Inr v # ps) = rejections ps"

text \<open>
  The entries in the log of calls for the \<^verbatim>\<open>adjustInventory\<close> calls that fulfillment
  items \<open>xs\<close> of fulfillment \<open>f\<close> ask for under manager \<open>m\<close>: one for each item whose
  order item has a truthy \<^verbatim>\<open>variant_id\<close>, in item order, with that variant, the location
  of \<open>f\<close> and the quantity of the item.
\<close>

definition expected_calls :: "manager \<Rightarrow> Fulfillment \<Rightarrow> FulfillmentItem list \<Rightarrow> ('c, 'i) call list" where
  "expected_calls m f xs =
     map (\<lambda>fi. AdjustInventory m (variant_id (item fi)) (location_id f) (quantity fi))
       (filter (\<lambda>fi. truthy (variant_id (item fi))) xs)"

text \<open>
  The promises that these items ask for, one for each item in item order: for an item
  whose order item has a truthy \<^verbatim>\<open>variant_id\<close>, the call of the service's
  \<^verbatim>\<open>adjustInventory\<close> with that variant, the location of \<open>f\<close> and the quantity of the
  item, in flight; for any other item, a promise fulfilled without a call.
\<close>

definition expected_promises :: "('w, 'x) ProductVariantInventoryService \<Rightarrow> manager
    \<Rightarrow> Fulfillment \<Rightarrow> FulfillmentItem list \<Rightarrow> ('w, 'x, unit) promise list" where
  "expected_promises service m f xs =
     map (\<lambda>fi. if truthy (variant_id (item fi))
               then InFlight (adjustInventory service m
                                (variant_id (item fi)) (location_id f) (quantity fi))
               else Settled (Inr ()))
       xs"

text \<open>Whether a promise stands for a call that is still in flight.\<close>

fun in_flight :: "('w, 'x, 'a) promise \<Rightarrow> bool" where
  "in_flight (InFlight eff) = True"
| "in_flight (Settled r) = False"

text \<open>The end of the handler, lines 110 to 114: reload the order and answer.\<close>

definition reload :: "('o \<Rightarrow> string list \<Rightarrow> 'o) \<Rightarrow> ('w, 'x, 'o, 'c, 'i) Request
    \<Rightarrow> ('w, 'x, 'c, 'i, (string \<times> 'o) list) async" where
  "reload clean req =
     await (call_retrieveWithTotals (orderService (scope req)) DefaultManager
              (id_param (params req)) (retrieveConfig req) (req_includes req))
       (\<lambda>order. resolve [(''order'', clean order [])])"

text \<open>No \<^verbatim>\<open>adjustInventory\<close> call comes before the first \<^verbatim>\<open>cancelFulfillment\<close> call.\<close>

fun cancel_before_adjust :: "('c, 'i) call list \<Rightarrow> bool" where
  "cancel_before_adjust [] = True"
| "cancel_before_adjust (c # cs) =
     (is_CancelFulfillment c \<or> (\<not> is_AdjustInventory c \<and> cancel_before_adjust cs))"

text \<open>
  A computation passes rejections on: when it rejects, it rejects with a value that a
  collaborator rejected with during it, and when it resolves, no collaborator rejected.
\<close>

definition propagates :: "('w, 'x, 'c, 'i, 'a) async \<Rightarrow> bool" where
  "propagates m = (\<forall>s r s'. m s = (r, s') \<longrightarrow>
     (\<exists>e es. r = Inl e \<and> rejected s' = rejected s @ es \<and> e \<in> set es)
   \<or> (\<exists>v. r = Inr v \<and> rejected s' = rejected s))"

text \<open>The four calls of the handler whose arguments come from the request alone.\<close>

abbreviation FirstFetch :: "('w, 'x, 'o, 'c, 'i) Request \<Rightarrow> ('c, 'i) call" where
  "FirstFetch req \<equiv> Retrieve DefaultManager (fulfillment_id (params req)) None"

abbreviation Cancel :: "('w, 'x, 'o, 'c, 'i) Request \<Rightarrow> ('c, 'i) call" where
  "Cancel req \<equiv> CancelFulfillment TransactionManager (fulfillment_id (params req))"

abbreviation Refetch :: "('w, 'x, 'o, 'c, 'i) Request \<Rightarrow> ('c, 'i) call" where
  "Refetch req \<equiv> Retrieve TransactionManager (fulfillment_id (params req))
     (Some \<lparr>relations = [''items'', ''items.item'']\<rparr>)"

abbreviation Reload :: "('w, 'x, 'o, 'c, 'i) Request \<Rightarrow> ('c, 'i) call" where
  "Reload req \<equiv> RetrieveWithTotals DefaultManager (id_param (params req))
     (retrieveConfig req) (req_includes req)"

subsection \<open>An example installation\<close>

text \<open>
  The database is a pair: whether the fulfillment is canceled, and the stock released so
  far. Fetching without relations yields the fulfillment without its items; fetching
  with relations yields \<open>refetched\<close>. Adjusting inventory fails outside a
  transaction, without a location and at the location \<open>sloc_old\<close>. Adjusting the
  inventory of \<open>variant_bad\<close> fails after it has written to the database; adjusting
  that of \<open>variant_gone\<close> fails without writing.
\<close>

definition example_first :: Fulfillment where
  "example_first =
     \<lparr>order_id = JSString ''order_1'', location_id = JSString ''sloc_old'', items = []\<rparr>"

definition example_refetched :: "js_str \<Rightarrow> string \<Rightarrow> Fulfillment" where
  "example_refetched loc v =
     \<lparr>order_id = JSString ''order_1'', location_id = loc,
      items = [\<lparr>item = \<lparr>variant_id = JSString ''variant_1''\<rparr>, quantity = 2\<rparr>,
               \<lparr>item = \<lparr>variant_id = JSNull\<rparr>, quantity = 5\<rparr>,
               \<lparr>item = \<lparr>variant_id = JSString v\<rparr>, quantity = 0\<rparr>,
               \<lparr>item = \<lparr>variant_id = JSString ''variant_3''\<rparr>, quantity = 1\<rparr>]\<rparr>"

definition example_two_failures :: Fulfillment where
  "example_two_failures =
     \<lparr>order_id = JSString ''order_1'', location_id = JSString ''sloc_1'',
      items = [\<lparr>item = \<lparr>variant_id = JSString ''variant_bad''\<rparr>, quantity = 1\<rparr>,
               \<lparr>item = \<lparr>variant_id = JSString ''variant_gone''\<rparr>, quantity = 1\<rparr>]\<rparr>"

definition example_scope :: "IInventoryService option \<Rightarrow> Fulfillment
    \<Rightarrow> (bool \<times> int, string, string, unit, unit) Scope" where
  "example_scope inventory refetched =
     \<lparr>orderService =
        \<lparr>cancelFulfillment = (\<lambda>m fid w. (Inr ''order_1'', (True, snd w))),
         retrieveWithTotals = (\<lambda>m oid c i w.
           (Inr (if fst w then ''order_1 canceled'' else ''order_1 fulfilled''), w))\<rparr>,
      inventoryService = inventory,
      productVariantInventoryService =
        \<lparr>adjustInventory = (\<lambda>m v l q w.
           if m = DefaultManager \<or> \<not> truthy l \<or> l = JSString ''sloc_old''
           then (Inl (Other ''no stock location''), w)
           else if v = JSString ''variant_bad''
           then (Inl (Other ''no stock level''), (fst w, snd w + 100))
           else if v = JSString ''variant_gone''
           then (Inl (Other ''no such variant''), w)
           else (Inr (), (fst w, snd w + q)))\<rparr>,
      fulfillmentService =
        \<lparr>retrieve = (\<lambda>m fid cfg w.
           if fid = ''ful_1''
           then (Inr (case cfg of None \<Rightarrow> example_first | Some c \<Rightarrow> refetched), w)
           else (Inl (MedusaError NOT_FOUND ''Fulfillment not found''), w))\<rparr>\<rparr>"

definition example_req :: "string \<Rightarrow> string \<Rightarrow> IInventoryService option \<Rightarrow> Fulfillment
    \<Rightarrow> (bool \<times> int, string, string, unit, unit) Request" where
  "example_req oid fid inventory refetched =
     \<lparr>params = \<lparr>id_param = oid, fulfillment_id = fid\<rparr>,
      scope = example_scope inventory refetched, retrieveConfig = (), req_includes = ()\<rparr>"

definition example_state :: "(bool \<times> int, string, unit, unit) state" where
  "example_state = \<lparr>world = (False, 0), trace = [], rejected = [], schedule = []\<rparr>"

section \<open>Properties\<close>

subsection \<open>What the fan-out starts\<close>

lemma invoke_trace: "invoke c eff s = (r, s') \<Longrightarrow> trace s' = trace s @ [c]"
  by (auto simp: invoke_def split: prod.splits sum.splits)

lemma expected_calls_Cons:
  "expected_calls m f (x # xs) = expected_calls m f [x] @ expected_calls m f xs"
  by (simp add: expected_calls_def)

lemma rejections_Cons: "rejections (r # rs) = rejections [r] @ rejections rs"
  by (cases r) simp_all

lemma adjustItem_starts:
  "adjustItem f (svc, m) fi s =
     (hd (expected_promises svc m f [fi]), s\<lparr>trace := trace s @ expected_calls m f [fi]\<rparr>)"
  by (simp add: adjustItem_def call_adjustInventory_def start_def expected_promises_def
      expected_calls_def)

lemma map_async_adjustItem:
  "map_async (adjustItem f (svc, m)) xs s =
     (expected_promises svc m f xs, s\<lparr>trace := trace s @ expected_calls m f xs\<rparr>)"
proof (induction xs arbitrary: s)
  case Nil
  show ?case by (simp add: expected_promises_def expected_calls_def)
next
  case (Cons x xs)
  have "expected_promises svc m f (x # xs)
      = hd (expected_promises svc m f [x]) # expected_promises svc m f xs"
    by (simp add: expected_promises_def)
  moreover have "map_async (adjustItem f (svc, m)) (x # xs) s =
      (case adjustItem f (svc, m) x s of (p, s1) \<Rightarrow>
         (case map_async (adjustItem f (svc, m)) xs s1 of (ps, s2) \<Rightarrow> (p # ps, s2)))"
    by simp
  ultimately show ?case
    unfolding adjustItem_starts[of f svc m x s]
    by (simp add: Cons.IH expected_calls_Cons[of m f x xs])
qed

lemma expected_promises_no_rejections:
  "rejections (settled (expected_promises svc m f xs)) = []"
  by (induction xs) (simp_all add: expected_promises_def)

lemma filter_expected_calls:
  "filter is_AdjustInventory (expected_calls m f xs) = expected_calls m f xs"
  by (induction xs) (simp_all add: expected_calls_def)

lemma all_expected_calls: "\<forall>c \<in> set (expected_calls m f xs). is_AdjustInventory c"
  by (auto simp: expected_calls_def)

subsection \<open>What waiting for the promises does\<close>

lemma settle_cases:
  assumes "settle i (ps, s) = (ps', s')"
  shows "(ps' = ps \<and> s' = s)
       \<or> (\<exists>eff r w'. i < length ps \<and> ps ! i = InFlight eff \<and> eff (world s) = (r, w')
            \<and> ps' = ps[i := Settled r]
            \<and> s' = s\<lparr>world := w', rejected := rejected s @ rejections [r]\<rparr>)"
  using assms
  by (auto simp: settle_def split: if_splits promise.splits prod.splits sum.splits)

lemma settled_update:
  "i < length ps \<Longrightarrow> ps ! i = InFlight eff \<Longrightarrow>
     mset (rejections (settled (ps[i := Settled r])))
       = mset (rejections (settled ps)) + mset (rejections [r])"
proof (induction ps arbitrary: i)
  case Nil
  then show ?case by simp
next
  case (Cons p ps)
  show ?case
  proof (cases i)
    case 0
    with Cons.prems show ?thesis by (cases r) simp_all
  next
    case (Suc j)
    with Cons.prems have "mset (rejections (settled (ps[j := Settled r])))
       = mset (rejections (settled ps)) + mset (rejections [r])"
      by (intro Cons.IH) simp_all
    with Suc show ?thesis
    proof (cases p)
      case (Settled r0)
      with Suc \<open>mset (rejections (settled (ps[j := Settled r])))
       = mset (rejections (settled ps)) + mset (rejections [r])\<close>
      show ?thesis
        by (simp add: rejections_Cons[of r0 "settled (ps[j := Settled r])"]
            rejections_Cons[of r0 "settled ps"])
    next
      case (InFlight eff0)
      with Suc \<open>mset (rejections (settled (ps[j := Settled r])))
       = mset (rejections (settled ps)) + mset (rejections [r])\<close>
      show ?thesis by simp
    qed
  qed
qed

lemma fold_settle_log:
  assumes "fold settle js (ps, s) = (ps', s')"
  shows "trace s' = trace s \<and> schedule s' = schedule s \<and> length ps' = length ps
       \<and> (\<exists>es. rejected s' = rejected s @ es
            \<and> mset (rejections (settled ps')) = mset (rejections (settled ps)) + mset es)"
  using assms
proof (induction js arbitrary: ps s)
  case Nil
  then show ?case by simp
next
  case (Cons j js)
  obtain ps1 s1 where step: "settle j (ps, s) = (ps1, s1)" by (cases "settle j (ps, s)")
  with Cons.prems have rest: "fold settle js (ps1, s1) = (ps', s')" by simp
  from Cons.IH[OF rest] obtain es where ih: "trace s' = trace s1" "schedule s' = schedule s1"
    "length ps' = length ps1" "rejected s' = rejected s1 @ es"
    "mset (rejections (settled ps')) = mset (rejections (settled ps1)) + mset es"
    by blast
  from settle_cases[OF step] show ?case
  proof
    assume "ps1 = ps \<and> s1 = s"
    with ih show ?thesis by auto
  next
    assume "\<exists>eff r w'. j < length ps \<and> ps ! j = InFlight eff \<and> eff (world s) = (r, w')
            \<and> ps1 = ps[j := Settled r]
            \<and> s1 = s\<lparr>world := w', rejected := rejected s @ rejections [r]\<rparr>"
    then obtain eff r w' where st: "j < length ps" "ps ! j = InFlight eff"
      "ps1 = ps[j := Settled r]"
      "s1 = s\<lparr>world := w', rejected := rejected s @ rejections [r]\<rparr>"
      by blast
    from settled_update[OF st(1,2), of r] st(3)
    have "mset (rejections (settled ps1))
        = mset (rejections (settled ps)) + mset (rejections [r])" by simp
    with ih st show ?thesis
      by (intro conjI exI[of _ "rejections [r] @ es"]) simp_all
  qed
qed

lemma reject_first_rejections:
  "reject_first rs = (case rejections rs of [] \<Rightarrow> Inr (map projr rs) | e # es \<Rightarrow> Inl e)"
  by (induction rs rule: reject_first.induct) (auto split: list.splits sum.splits)

lemma promiseAll_log:
  assumes "promiseAll ps s = (r, s')" and "rejections (settled ps) = []"
  shows "trace s' = trace s \<and>
     ((\<exists>e es. r = Inl e \<and> rejected s' = rejected s @ es \<and> e \<in> set es)
      \<or> (\<exists>vs. r = Inr vs \<and> rejected s' = rejected s))"
proof -
  obtain ps' where run: "fold settle (schedule s @ [0..<length ps]) (ps, s) = (ps', s')"
    and r: "r = reject_first (settled ps')"
    using assms(1) by (auto simp: promiseAll_def allSettled_def split: prod.splits)
  from fold_settle_log[OF run] assms(2) obtain es where log: "trace s' = trace s"
    "rejected s' = rejected s @ es" "mset (rejections (settled ps')) = mset es"
    by auto
  show ?thesis
  proof (cases "rejections (settled ps')")
    case Nil
    with log(3) have "es = []" by simp
    with Nil r log show ?thesis by (simp add: reject_first_rejections)
  next
    case (Cons e rest)
    with log(3) have "e \<in> set es" by (metis list.set_intros(1) mset_eq_setD)
    with Cons r log show ?thesis by (simp add: reject_first_rejections)
  qed
qed

lemma settle_keeps:
  assumes "settle i (ps, s) = (ps', s')" and "j < length ps" and "\<not> in_flight (ps ! j)"
  shows "\<not> in_flight (ps' ! j)"
  using settle_cases[OF assms(1)] assms(2,3)
  by (auto simp: nth_list_update split: if_splits)

lemma settle_settles:
  assumes "settle i (ps, s) = (ps', s')" and "i < length ps"
  shows "\<not> in_flight (ps' ! i)"
  using assms
  by (auto simp: settle_def split: if_splits promise.splits prod.splits sum.splits)

lemma settle_length:
  assumes "settle i (ps, s) = (ps', s')"
  shows "length ps' = length ps"
  using settle_cases[OF assms] by auto

lemma fold_settle_keeps:
  assumes "fold settle js (ps, s) = (ps', s')" and "j < length ps" and "\<not> in_flight (ps ! j)"
  shows "\<not> in_flight (ps' ! j)"
  using assms
proof (induction js arbitrary: ps s)
  case Nil
  then show ?case by simp
next
  case (Cons i js)
  obtain ps1 s1 where step: "settle i (ps, s) = (ps1, s1)" by (cases "settle i (ps, s)")
  with Cons.prems have rest: "fold settle js (ps1, s1) = (ps', s')" by simp
  from settle_keeps[OF step Cons.prems(2,3)] settle_length[OF step] Cons.prems(2)
  show ?case by (intro Cons.IH[OF rest]) simp_all
qed

lemma fold_settle_settles:
  assumes "fold settle js (ps, s) = (ps', s')" and "j \<in> set js" and "j < length ps"
  shows "\<not> in_flight (ps' ! j)"
  using assms
proof (induction js arbitrary: ps s)
  case Nil
  then show ?case by simp
next
  case (Cons i js)
  obtain ps1 s1 where step: "settle i (ps, s) = (ps1, s1)" by (cases "settle i (ps, s)")
  with Cons.prems have rest: "fold settle js (ps1, s1) = (ps', s')" by simp
  from settle_length[OF step] Cons.prems(3) have len: "j < length ps1" by simp
  show ?case
  proof (cases "j = i")
    case True
    with settle_settles[OF step] Cons.prems(3) have "\<not> in_flight (ps1 ! j)" by simp
    from fold_settle_keeps[OF rest len this] show ?thesis .
  next
    case False
    with Cons.prems(2) have "j \<in> set js" by simp
    from Cons.IH[OF rest this len] show ?thesis .
  qed
qed

lemma allSettled_complete:
  assumes "allSettled ps s = (ps', s')"
  shows "length ps' = length ps \<and> (\<forall>p \<in> set ps'. \<not> in_flight p)"
proof -
  from assms have run: "fold settle (schedule s @ [0..<length ps]) (ps, s) = (ps', s')"
    by (simp add: allSettled_def)
  from fold_settle_log[OF run] have len: "length ps' = length ps" by simp
  have "\<not> in_flight (ps' ! j)" if "j < length ps" for j
    using fold_settle_settles[OF run, of j] that by simp
  with len show ?thesis by (auto simp: in_set_conv_nth)
qed

subsection \<open>The handler and the callback, stage by stage\<close>

lemma handler_first_fetch_fails:
  assumes "retrieve (fulfillmentService (scope req)) DefaultManager (fulfillment_id (params req)) None (world s) = (Inl e, w1)"
  shows "handler clean req s = (Inl e, s\<lparr>world := w1,
           trace := trace s @ [Retrieve DefaultManager (fulfillment_id (params req)) None],
           rejected := rejected s @ [e]\<rparr>)"
  using assms by (simp add: handler_def await_def call_retrieve_def invoke_def)

lemma handler_mismatch:
  assumes "retrieve (fulfillmentService (scope req)) DefaultManager (fulfillment_id (params req)) None (world s) = (Inr f1, w1)"
    and "order_id f1 \<noteq> JSString (id_param (params req))"
  shows "handler clean req s = (Inl (MedusaError NOT_FOUND (not_found_message (fulfillment_id (params req)) (id_param (params req)))),
       s\<lparr>world := w1, trace := trace s @ [Retrieve DefaultManager (fulfillment_id (params req)) None]\<rparr>)"
  using assms by (simp add: handler_def await_def call_retrieve_def invoke_def throw_def)

lemma handler_enters_transaction:
  assumes "retrieve (fulfillmentService (scope req)) DefaultManager (fulfillment_id (params req)) None (world s) = (Inr f1, w1)"
    and "order_id f1 = JSString (id_param (params req))"
  shows "handler clean req s =
     await (transaction (transaction_callback req)) (\<lambda>_. reload clean req)
       (s\<lparr>world := w1, trace := trace s @ [Retrieve DefaultManager (fulfillment_id (params req)) None]\<rparr>)"
  using assms by (simp add: handler_def await_def call_retrieve_def invoke_def reload_def)

lemma callback_cancel_fails:
  assumes "cancelFulfillment (orderService (scope req)) m (fulfillment_id (params req)) (world s) = (Inl e, w2)"
  shows "transaction_callback req m s = (Inl e, s\<lparr>world := w2,
           trace := trace s @ [CancelFulfillment m (fulfillment_id (params req))],
           rejected := rejected s @ [e]\<rparr>)"
  using assms
  by (simp add: transaction_callback_def await_def call_cancelFulfillment_def invoke_def)

lemma callback_refetch_fails:
  assumes "cancelFulfillment (orderService (scope req)) m (fulfillment_id (params req)) (world s) = (Inr ord, w2)"
    and "retrieve (fulfillmentService (scope req)) m (fulfillment_id (params req))
           (Some \<lparr>relations = [''items'', ''items.item'']\<rparr>) w2 = (Inl e, w3)"
  shows "transaction_callback req m s = (Inl e, s\<lparr>world := w3,
           trace := trace s @ [CancelFulfillment m (fulfillment_id (params req)),
             Retrieve m (fulfillment_id (params req)) (Some \<lparr>relations = [''items'', ''items.item'']\<rparr>)],
           rejected := rejected s @ [e]\<rparr>)"
  using assms
  by (simp add: transaction_callback_def await_def call_cancelFulfillment_def
      call_retrieve_def invoke_def)

lemma callback_refetched:
  assumes "cancelFulfillment (orderService (scope req)) m (fulfillment_id (params req)) (world s) = (Inr ord, w2)"
    and "retrieve (fulfillmentService (scope req)) m (fulfillment_id (params req))
           (Some \<lparr>relations = [''items'', ''items.item'']\<rparr>) w2 = (Inr f2, w3)"
  shows "transaction_callback req m s =
     (if truthy (location_id f2) \<and> inventoryService (scope req) \<noteq> None
      then await (adjustInventoryForCancelledFulfillment f2 (productVariantInventoryService (scope req), m))
             (\<lambda>_. resolve ())
      else resolve ())
       (s\<lparr>world := w3,
          trace := trace s @ [CancelFulfillment m (fulfillment_id (params req)),
             Retrieve m (fulfillment_id (params req)) (Some \<lparr>relations = [''items'', ''items.item'']\<rparr>)]\<rparr>)"
  using assms
  by (simp add: transaction_callback_def await_def call_cancelFulfillment_def
      call_retrieve_def invoke_def)

lemma adjust_run:
  "adjustInventoryForCancelledFulfillment f (svc, m) s =
     promiseAll (expected_promises svc m f (items f))
       (s\<lparr>trace := trace s @ expected_calls m f (items f)\<rparr>)"
  by (simp add: adjustInventoryForCancelledFulfillment_def map_async_adjustItem)

lemma adjust_run_trace:
  assumes "adjustInventoryForCancelledFulfillment f (svc, m) s = (r, s')"
  shows "trace s' = trace s @ expected_calls m f (items f)"
  using promiseAll_log[OF assms[unfolded adjust_run] expected_promises_no_rejections]
  by simp

lemma adjust_run_outcome:
  assumes "adjustInventoryForCancelledFulfillment f (svc, m) s = (r, s')"
  shows "(\<exists>e es. r = Inl e \<and> rejected s' = rejected s @ es \<and> e \<in> set es)
       \<or> (\<exists>vs. r = Inr vs \<and> rejected s' = rejected s)"
  using promiseAll_log[OF assms[unfolded adjust_run] expected_promises_no_rejections]
  by simp

lemma reload_trace:
  assumes "reload clean req s = (r, s')"
  shows "trace s' = trace s @ [RetrieveWithTotals DefaultManager (id_param (params req))
                      (retrieveConfig req) (req_includes req)]"
  using assms
  by (auto simp: reload_def await_def call_retrieveWithTotals_def invoke_def resolve_def
      split: prod.splits sum.splits)

lemma reload_world:
  "world (snd (reload clean req s)) =
     snd (retrieveWithTotals (orderService (scope req)) DefaultManager (id_param (params req))
            (retrieveConfig req) (req_includes req) (world s))"
  by (auto simp: reload_def await_def call_retrieveWithTotals_def invoke_def resolve_def
      split: prod.splits sum.splits)

lemma reload_trace_snd: "trace (snd (reload clean req s)) = trace s @ [Reload req]"
  using reload_trace[of clean req s "fst (reload clean req s)" "snd (reload clean req s)"]
  by simp

subsection \<open>The shape of the calls of a run\<close>

lemma callback_trace:
  assumes "transaction_callback req m s = (r, s')"
  shows "\<exists>new adj. trace s' = trace s @ new \<and> (\<forall>c \<in> set adj. is_AdjustInventory c) \<and>
     (case r of
        Inl e \<Rightarrow>
          new = [CancelFulfillment m (fulfillment_id (params req))]
        \<or> new = [CancelFulfillment m (fulfillment_id (params req)),
             Retrieve m (fulfillment_id (params req))
               (Some \<lparr>relations = [''items'', ''items.item'']\<rparr>)] @ adj
      | Inr v \<Rightarrow>
          new = [CancelFulfillment m (fulfillment_id (params req)),
             Retrieve m (fulfillment_id (params req))
               (Some \<lparr>relations = [''items'', ''items.item'']\<rparr>)] @ adj)"
proof (cases "cancelFulfillment (orderService (scope req)) m (fulfillment_id (params req)) (world s)")
  case (Pair c w2)
  show ?thesis
  proof (cases c)
    case (Inl e)
    with Pair assms callback_cancel_fails[of req m s e w2]
    have "r = Inl e \<and> trace s' = trace s @ [CancelFulfillment m (fulfillment_id (params req))]"
      by auto
    then show ?thesis
      by (intro exI[of _ "[CancelFulfillment m (fulfillment_id (params req))]"] exI[of _ "[]"]) simp
  next
    case (Inr ord)
    note cancel = Pair[unfolded Inr]
    let ?pre = "[CancelFulfillment m (fulfillment_id (params req)),
             Retrieve m (fulfillment_id (params req))
               (Some \<lparr>relations = [''items'', ''items.item'']\<rparr>)]"
    show ?thesis
    proof (cases "retrieve (fulfillmentService (scope req)) m (fulfillment_id (params req))
           (Some \<lparr>relations = [''items'', ''items.item'']\<rparr>) w2")
      case (Pair c2 w3)
      show ?thesis
      proof (cases c2)
        case (Inl e)
        with Pair assms callback_refetch_fails[OF cancel, of e w3]
        have "r = Inl e \<and> trace s' = trace s @ ?pre @ []" by auto
        then show ?thesis by (intro exI[of _ "?pre @ []"] exI[of _ "[]"]) simp
      next
        case (Inr f2)
        note run = callback_refetched[OF cancel Pair[unfolded Inr]]
        show ?thesis
        proof (cases "truthy (location_id f2) \<and> inventoryService (scope req) \<noteq> None")
          case False
          with run assms
          have "r = Inr () \<and> trace s' = trace s @ ?pre @ []"
            by (auto simp: resolve_def)
          then show ?thesis by (intro exI[of _ "?pre @ []"] exI[of _ "[]"]) simp
        next
          case True
          let ?s3 = "s\<lparr>world := w3, trace := trace s @ ?pre\<rparr>"
          obtain ra sa where a: "adjustInventoryForCancelledFulfillment f2
              (productVariantInventoryService (scope req), m) ?s3 = (ra, sa)"
            by (cases "adjustInventoryForCancelledFulfillment f2
              (productVariantInventoryService (scope req), m) ?s3")
          from run True assms a have "s' = sa"
            by (auto simp: await_def resolve_def split: sum.splits)
          with adjust_run_trace[OF a]
          have "trace s' = trace s @ ?pre @ expected_calls m f2 (items f2)"
            by simp
          then show ?thesis
            by (intro exI[of _ "?pre @ expected_calls m f2 (items f2)"]
                  exI[of _ "expected_calls m f2 (items f2)"])
               (simp add: all_expected_calls split: sum.splits)
        qed
      qed
    qed
  qed
qed

lemma transaction_trace:
  assumes "transaction (transaction_callback req) s = (r, s')"
  shows "\<exists>new adj. trace s' = trace s @ new \<and> (\<forall>c \<in> set adj. is_AdjustInventory c) \<and>
     (case r of
        Inl e \<Rightarrow>
          new = [TransactionBegin,
             CancelFulfillment TransactionManager (fulfillment_id (params req)),
             TransactionRollback]
        \<or> new = [TransactionBegin,
             CancelFulfillment TransactionManager (fulfillment_id (params req)),
             Retrieve TransactionManager (fulfillment_id (params req))
               (Some \<lparr>relations = [''items'', ''items.item'']\<rparr>)] @ adj @ [TransactionRollback]
      | Inr v \<Rightarrow>
          new = [TransactionBegin,
             CancelFulfillment TransactionManager (fulfillment_id (params req)),
             Retrieve TransactionManager (fulfillment_id (params req))
               (Some \<lparr>relations = [''items'', ''items.item'']\<rparr>)] @ adj @ [TransactionCommit])"
proof -
  let ?s0 = "s\<lparr>trace := trace s @ [TransactionBegin]\<rparr>"
  let ?C = "CancelFulfillment TransactionManager (fulfillment_id (params req))"
  let ?R = "Retrieve TransactionManager (fulfillment_id (params req))
               (Some \<lparr>relations = [''items'', ''items.item'']\<rparr>)"
  obtain rc sc where c: "transaction_callback req TransactionManager ?s0 = (rc, sc)"
    by (cases "transaction_callback req TransactionManager ?s0")
  from callback_trace[OF c] obtain new adj where tr: "trace sc = trace ?s0 @ new"
    and adj: "\<forall>c \<in> set adj. is_AdjustInventory c"
    and shape: "case rc of Inl e \<Rightarrow> new = [?C] \<or> new = [?C, ?R] @ adj
                 | Inr v \<Rightarrow> new = [?C, ?R] @ adj"
    by blast
  show ?thesis
  proof (cases rc)
    case (Inl e)
    with assms c have r: "r = Inl e" "trace s' = trace sc @ [TransactionRollback]"
      by (auto simp: transaction_def)
    with tr shape Inl adj show ?thesis
      by (intro exI[of _ "TransactionBegin # new @ [TransactionRollback]"] exI[of _ adj]) auto
  next
    case (Inr v)
    with assms c have r: "r = Inr v" "trace s' = trace sc @ [TransactionCommit]"
      by (auto simp: transaction_def)
    with tr shape Inr adj show ?thesis
      by (intro exI[of _ "TransactionBegin # new @ [TransactionCommit]"] exI[of _ adj]) auto
  qed
qed

lemma transaction_commits:
  assumes "transaction cb s = (Inr v, s')"
  shows "last (trace s') = TransactionCommit"
  using assms by (auto simp: transaction_def split: prod.splits sum.splits)

lemma handler_trace:
  assumes "handler clean req s = (r, s')"
  shows "\<exists>new adj. trace s' = trace s @ new \<and> (\<forall>c \<in> set adj. is_AdjustInventory c) \<and>
     (case r of
        Inl e \<Rightarrow>
          new = [FirstFetch req]
        \<or> new = [FirstFetch req, TransactionBegin, Cancel req, TransactionRollback]
        \<or> new = [FirstFetch req, TransactionBegin, Cancel req, Refetch req] @ adj
                  @ [TransactionRollback]
        \<or> new = [FirstFetch req, TransactionBegin, Cancel req, Refetch req] @ adj
                  @ [TransactionCommit, Reload req]
      | Inr body \<Rightarrow>
          new = [FirstFetch req, TransactionBegin, Cancel req, Refetch req] @ adj
                  @ [TransactionCommit, Reload req])"
proof (cases "retrieve (fulfillmentService (scope req)) DefaultManager
                (fulfillment_id (params req)) None (world s)")
  case (Pair c w1)
  show ?thesis
  proof (cases c)
    case (Inl e)
    with Pair assms handler_first_fetch_fails[of req s e w1 clean]
    have "r = Inl e \<and> trace s' = trace s @ [FirstFetch req]" by auto
    then show ?thesis by (intro exI[of _ "[FirstFetch req]"] exI[of _ "[]"]) simp
  next
    case (Inr f1)
    note fetch = Pair[unfolded Inr]
    show ?thesis
    proof (cases "order_id f1 = JSString (id_param (params req))")
      case False
      with assms handler_mismatch[OF fetch, of clean]
      have "(\<exists>e. r = Inl e) \<and> trace s' = trace s @ [FirstFetch req]" by auto
      then show ?thesis by (intro exI[of _ "[FirstFetch req]"] exI[of _ "[]"]) auto
    next
      case True
      let ?s1 = "s\<lparr>world := w1, trace := trace s @ [FirstFetch req]\<rparr>"
      note run = handler_enters_transaction[OF fetch True, of clean]
      obtain rt st where tx: "transaction (transaction_callback req) ?s1 = (rt, st)"
        by (cases "transaction (transaction_callback req) ?s1")
      from transaction_trace[OF tx] obtain new adj where tr: "trace st = trace ?s1 @ new"
        and adj: "\<forall>c \<in> set adj. is_AdjustInventory c"
        and shape: "case rt of
            Inl e \<Rightarrow>
              new = [TransactionBegin, Cancel req, TransactionRollback]
            \<or> new = [TransactionBegin, Cancel req, Refetch req] @ adj @ [TransactionRollback]
          | Inr v \<Rightarrow>
              new = [TransactionBegin, Cancel req, Refetch req] @ adj @ [TransactionCommit]"
        by blast
      show ?thesis
      proof (cases rt)
        case (Inl e)
        with run tx assms have "r = Inl e" "s' = st" by (simp_all add: await_def)
        with tr shape Inl adj show ?thesis
          by (intro exI[of _ "FirstFetch req # new"] exI[of _ adj]) auto
      next
        case (Inr v)
        with run tx assms have rl: "reload clean req st = (r, s')" by (simp add: await_def)
        from reload_trace[OF rl] tr
        have "trace s' = trace s @ FirstFetch req # new @ [Reload req]" by simp
        with shape Inr adj show ?thesis
          by (intro exI[of _ "FirstFetch req # new @ [Reload req]"] exI[of _ adj])
             (auto split: sum.splits)
      qed
    qed
  qed
qed

subsection \<open>Rejections are passed on\<close>

lemma propagatesD:
  assumes "propagates m" and "m s = (r, s')"
  shows "(\<exists>e es. r = Inl e \<and> rejected s' = rejected s @ es \<and> e \<in> set es)
       \<or> (\<exists>v. r = Inr v \<and> rejected s' = rejected s)"
  using assms unfolding propagates_def by blast

lemma propagates_invoke: "propagates (invoke c eff)"
  by (auto simp: propagates_def invoke_def split: prod.splits sum.splits)

lemma propagates_resolve: "propagates (resolve v)"
  by (simp add: propagates_def resolve_def)

lemma propagates_await:
  assumes "propagates m" and "\<And>v. propagates (k v)"
  shows "propagates (await m k)"
  unfolding propagates_def
proof (intro allI impI)
  fix s r s'
  assume run: "await m k s = (r, s')"
  obtain r1 s1 where m: "m s = (r1, s1)" by (cases "m s")
  show "(\<exists>e es. r = Inl e \<and> rejected s' = rejected s @ es \<and> e \<in> set es)
      \<or> (\<exists>v. r = Inr v \<and> rejected s' = rejected s)"
  proof (cases r1)
    case (Inl e)
    with run m have "r = Inl e" "s' = s1" by (simp_all add: await_def)
    with propagatesD[OF assms(1) m] Inl show ?thesis by auto
  next
    case (Inr v)
    with run m have k: "k v s1 = (r, s')" by (simp add: await_def)
    from propagatesD[OF assms(1) m] Inr have "rejected s1 = rejected s" by auto
    with propagatesD[OF assms(2) k] show ?thesis by auto
  qed
qed

lemma propagates_transaction:
  assumes "propagates (cb TransactionManager)"
  shows "propagates (transaction cb)"
  unfolding propagates_def
proof (intro allI impI)
  fix s r s'
  assume run: "transaction cb s = (r, s')"
  obtain rc sc where c: "cb TransactionManager (s\<lparr>trace := trace s @ [TransactionBegin]\<rparr>) = (rc, sc)"
    by (cases "cb TransactionManager (s\<lparr>trace := trace s @ [TransactionBegin]\<rparr>)")
  from propagatesD[OF assms c]
  have "(\<exists>e es. rc = Inl e \<and> rejected sc = rejected s @ es \<and> e \<in> set es)
      \<or> (\<exists>v. rc = Inr v \<and> rejected sc = rejected s)"
    by simp
  with run c show "(\<exists>e es. r = Inl e \<and> rejected s' = rejected s @ es \<and> e \<in> set es)
      \<or> (\<exists>v. r = Inr v \<and> rejected s' = rejected s)"
    by (auto simp: transaction_def)
qed

lemma propagates_adjust: "propagates (adjustInventoryForCancelledFulfillment f (svc, m))"
  unfolding propagates_def using adjust_run_outcome by blast

lemma propagates_callback: "propagates (transaction_callback req m)"
  unfolding transaction_callback_def call_cancelFulfillment_def call_retrieve_def
  by (intro propagates_await propagates_invoke)
     (simp add: propagates_await propagates_adjust propagates_resolve)

lemma propagates_reload: "propagates (reload clean req)"
  unfolding reload_def call_retrieveWithTotals_def
  by (intro propagates_await propagates_invoke propagates_resolve)

lemma propagates_after_fetch:
  "propagates (await (transaction (transaction_callback req)) (\<lambda>_. reload clean req))"
  by (intro propagates_await propagates_transaction propagates_callback propagates_reload)

subsection \<open>Runs that reach the guard\<close>

lemma transaction_skips:
  assumes "cancelFulfillment (orderService (scope req)) TransactionManager
             (fulfillment_id (params req)) (world s) = (Inr ord, w2)"
    and "retrieve (fulfillmentService (scope req)) TransactionManager (fulfillment_id (params req))
           (Some \<lparr>relations = [''items'', ''items.item'']\<rparr>) w2 = (Inr f2, w3)"
    and "\<not> (truthy (location_id f2) \<and> inventoryService (scope req) \<noteq> None)"
  shows "transaction (transaction_callback req) s =
     (Inr (), s\<lparr>world := w3,
        trace := trace s @ [TransactionBegin, Cancel req, Refetch req, TransactionCommit]\<rparr>)"
proof -
  let ?s0 = "s\<lparr>trace := trace s @ [TransactionBegin]\<rparr>"
  from assms(1) have c: "cancelFulfillment (orderService (scope req)) TransactionManager
             (fulfillment_id (params req)) (world ?s0) = (Inr ord, w2)" by simp
  have "transaction_callback req TransactionManager ?s0 =
      resolve () (?s0\<lparr>world := w3, trace := trace ?s0 @ [Cancel req, Refetch req]\<rparr>)"
    by (subst callback_refetched[OF c assms(2)]) (simp only: if_not_P[OF assms(3)])
  then show ?thesis by (simp add: transaction_def resolve_def)
qed

lemma transaction_adjusts:
  assumes "cancelFulfillment (orderService (scope req)) TransactionManager
             (fulfillment_id (params req)) (world s) = (Inr ord, w2)"
    and "retrieve (fulfillmentService (scope req)) TransactionManager (fulfillment_id (params req))
           (Some \<lparr>relations = [''items'', ''items.item'']\<rparr>) w2 = (Inr f2, w3)"
    and "truthy (location_id f2) \<and> inventoryService (scope req) \<noteq> None"
    and "adjustInventoryForCancelledFulfillment f2
           (productVariantInventoryService (scope req), TransactionManager)
           (s\<lparr>world := w3, trace := trace s @ [TransactionBegin, Cancel req, Refetch req]\<rparr>)
         = (ra, sa)"
  shows "transaction (transaction_callback req) s =
     (case ra of
        Inl e \<Rightarrow> (Inl e, sa\<lparr>world := world s, trace := trace sa @ [TransactionRollback]\<rparr>)
      | Inr vs \<Rightarrow> (Inr (), sa\<lparr>trace := trace sa @ [TransactionCommit]\<rparr>))"
proof -
  let ?s0 = "s\<lparr>trace := trace s @ [TransactionBegin]\<rparr>"
  from assms(1) have c: "cancelFulfillment (orderService (scope req)) TransactionManager
             (fulfillment_id (params req)) (world ?s0) = (Inr ord, w2)" by simp
  have "transaction_callback req TransactionManager ?s0 =
      await (adjustInventoryForCancelledFulfillment f2
               (productVariantInventoryService (scope req), TransactionManager))
        (\<lambda>_. resolve ()) (?s0\<lparr>world := w3, trace := trace ?s0 @ [Cancel req, Refetch req]\<rparr>)"
    by (subst callback_refetched[OF c assms(2)]) (simp only: if_P[OF assms(3)])
  with assms(4) show ?thesis
    by (simp add: transaction_def resolve_def await_def split: sum.splits)
qed

lemma handler_skips:
  assumes "retrieve (fulfillmentService (scope req)) DefaultManager
             (fulfillment_id (params req)) None (world s) = (Inr f1, w1)"
    and "order_id f1 = JSString (id_param (params req))"
    and "cancelFulfillment (orderService (scope req)) TransactionManager
             (fulfillment_id (params req)) w1 = (Inr ord, w2)"
    and "retrieve (fulfillmentService (scope req)) TransactionManager (fulfillment_id (params req))
           (Some \<lparr>relations = [''items'', ''items.item'']\<rparr>) w2 = (Inr f2, w3)"
    and "\<not> (truthy (location_id f2) \<and> inventoryService (scope req) \<noteq> None)"
  shows "handler clean req s = reload clean req (s\<lparr>world := w3,
           trace := trace s @ [FirstFetch req, TransactionBegin, Cancel req, Refetch req,
             TransactionCommit]\<rparr>)"
proof -
  let ?s1 = "s\<lparr>world := w1, trace := trace s @ [FirstFetch req]\<rparr>"
  from assms(3) have c: "cancelFulfillment (orderService (scope req)) TransactionManager
             (fulfillment_id (params req)) (world ?s1) = (Inr ord, w2)" by simp
  show ?thesis
    by (simp add: handler_enters_transaction[OF assms(1,2)] await_def
        transaction_skips[OF c assms(4,5)])
qed

lemma handler_adjusts:
  assumes "retrieve (fulfillmentService (scope req)) DefaultManager
             (fulfillment_id (params req)) None (world s) = (Inr f1, w1)"
    and "order_id f1 = JSString (id_param (params req))"
    and "cancelFulfillment (orderService (scope req)) TransactionManager
             (fulfillment_id (params req)) w1 = (Inr ord, w2)"
    and "retrieve (fulfillmentService (scope req)) TransactionManager (fulfillment_id (params req))
           (Some \<lparr>relations = [''items'', ''items.item'']\<rparr>) w2 = (Inr f2, w3)"
    and "truthy (location_id f2) \<and> inventoryService (scope req) \<noteq> None"
  shows "\<exists>tail. trace (snd (handler clean req s)) =
           trace s @ [FirstFetch req, TransactionBegin, Cancel req, Refetch req]
             @ expected_calls TransactionManager f2 (items f2) @ tail
         \<and> (tail = [TransactionRollback] \<or> tail = [TransactionCommit, Reload req])"
proof -
  let ?s1 = "s\<lparr>world := w1, trace := trace s @ [FirstFetch req]\<rparr>"
  let ?s3 = "?s1\<lparr>world := w3, trace := trace ?s1 @ [TransactionBegin, Cancel req, Refetch req]\<rparr>"
  from assms(3) have c: "cancelFulfillment (orderService (scope req)) TransactionManager
             (fulfillment_id (params req)) (world ?s1) = (Inr ord, w2)" by simp
  obtain ra sa where a: "adjustInventoryForCancelledFulfillment f2
           (productVariantInventoryService (scope req), TransactionManager) ?s3 = (ra, sa)"
    by (cases "adjustInventoryForCancelledFulfillment f2
           (productVariantInventoryService (scope req), TransactionManager) ?s3")
  note tx = transaction_adjusts[OF c assms(4,5) a]
  from adjust_run_trace[OF a]
  have tr: "trace sa = trace s @ [FirstFetch req, TransactionBegin, Cancel req, Refetch req]
             @ expected_calls TransactionManager f2 (items f2)" by simp
  show ?thesis
  proof (cases ra)
    case (Inl e)
    with tx tr show ?thesis
      by (simp add: handler_enters_transaction[OF assms(1,2)] await_def)
  next
    case (Inr vs)
    obtain rr sr where r: "reload clean req (sa\<lparr>trace := trace sa @ [TransactionCommit]\<rparr>) = (rr, sr)"
      by (cases "reload clean req (sa\<lparr>trace := trace sa @ [TransactionCommit]\<rparr>)")
    from reload_trace[OF r] tr Inr tx r show ?thesis
      by (simp add: handler_enters_transaction[OF assms(1,2)] await_def)
  qed
qed

lemma callback_adjusts:
  assumes "cancelFulfillment (orderService (scope req)) m (fulfillment_id (params req)) (world s) = (Inr ord, w2)"
    and "retrieve (fulfillmentService (scope req)) m (fulfillment_id (params req))
           (Some \<lparr>relations = [''items'', ''items.item'']\<rparr>) w2 = (Inr f2, w3)"
    and "truthy (location_id f2) \<and> inventoryService (scope req) \<noteq> None"
  shows "transaction_callback req m s =
     await (promiseAll (expected_promises (productVariantInventoryService (scope req)) m f2
                          (items f2)))
       (\<lambda>_. resolve ())
       (s\<lparr>world := w3,
          trace := trace s @ [CancelFulfillment m (fulfillment_id (params req)),
             Retrieve m (fulfillment_id (params req))
               (Some \<lparr>relations = [''items'', ''items.item'']\<rparr>)]
             @ expected_calls m f2 (items f2)\<rparr>)"
proof -
  have "transaction_callback req m s =
      await (adjustInventoryForCancelledFulfillment f2
               (productVariantInventoryService (scope req), m))
        (\<lambda>_. resolve ())
        (s\<lparr>world := w3,
           trace := trace s @ [CancelFulfillment m (fulfillment_id (params req)),
             Retrieve m (fulfillment_id (params req))
               (Some \<lparr>relations = [''items'', ''items.item'']\<rparr>)]\<rparr>)"
    by (subst callback_refetched[OF assms(1,2)]) (simp only: if_P[OF assms(3)])
  then show ?thesis by (simp add: await_def adjust_run)
qed

lemma callback_skips:
  assumes "cancelFulfillment (orderService (scope req)) m (fulfillment_id (params req)) (world s) = (Inr ord, w2)"
    and "retrieve (fulfillmentService (scope req)) m (fulfillment_id (params req))
           (Some \<lparr>relations = [''items'', ''items.item'']\<rparr>) w2 = (Inr f2, w3)"
    and "\<not> (truthy (location_id f2) \<and> inventoryService (scope req) \<noteq> None)"
  shows "transaction_callback req m s =
     resolve ()
       (s\<lparr>world := w3,
          trace := trace s @ [CancelFulfillment m (fulfillment_id (params req)),
             Retrieve m (fulfillment_id (params req))
               (Some \<lparr>relations = [''items'', ''items.item'']\<rparr>)]\<rparr>)"
  by (subst callback_refetched[OF assms(1,2)]) (simp only: if_not_P[OF assms(3)])

lemma fold_settle_settled_single: "fold settle js ([Settled r], s) = ([Settled r], s)"
  by (induction js) (simp_all add: settle_def)

lemma fold_settle_single:
  "fold settle js ([InFlight eff], s) =
     (if 0 \<in> set js then settle 0 ([InFlight eff], s) else ([InFlight eff], s))"
proof (induction js)
  case Nil
  show ?case by simp
next
  case (Cons j js)
  show ?case
  proof (cases "j = 0")
    case True
    obtain r w' where e: "eff (world s) = (r, w')" by (cases "eff (world s)")
    then obtain s1 where "settle 0 ([InFlight eff], s) = ([Settled r], s1)"
      by (cases r) (simp_all add: settle_def)
    with True show ?thesis by (simp add: fold_settle_settled_single)
  next
    case False
    then have "settle j ([InFlight eff], s) = ([InFlight eff], s)" by (simp add: settle_def)
    with False Cons.IH show ?thesis by simp
  qed
qed

lemma promiseAll_single:
  "promiseAll [InFlight eff] s =
     (case eff (world s) of
        (Inl e, w') \<Rightarrow> (Inl e, s\<lparr>world := w', rejected := rejected s @ [e]\<rparr>)
      | (Inr v, w') \<Rightarrow> (Inr [v], s\<lparr>world := w'\<rparr>))"
  by (simp add: promiseAll_def allSettled_def fold_settle_single settle_def
      split: prod.splits sum.splits)

lemma handler_cancel_fails:
  assumes "retrieve (fulfillmentService (scope req)) DefaultManager
             (fulfillment_id (params req)) None (world s) = (Inr f1, w1)"
    and "order_id f1 = JSString (id_param (params req))"
    and "cancelFulfillment (orderService (scope req)) TransactionManager
             (fulfillment_id (params req)) w1 = (Inl e, w2)"
  shows "handler clean req s =
     (Inl e, s\<lparr>world := w1,
        trace := trace s @ [FirstFetch req, TransactionBegin, Cancel req, TransactionRollback],
        rejected := rejected s @ [e]\<rparr>)"
proof -
  let ?s0 = "s\<lparr>world := w1, trace := trace s @ [FirstFetch req, TransactionBegin]\<rparr>"
  from assms(3) have c: "cancelFulfillment (orderService (scope req)) TransactionManager
             (fulfillment_id (params req)) (world ?s0) = (Inl e, w2)" by simp
  show ?thesis
    using callback_cancel_fails[OF c]
    by (simp add: handler_enters_transaction[OF assms(1,2)] await_def transaction_def)
qed

lemma handler_refetch_fails:
  assumes "retrieve (fulfillmentService (scope req)) DefaultManager
             (fulfillment_id (params req)) None (world s) = (Inr f1, w1)"
    and "order_id f1 = JSString (id_param (params req))"
    and "cancelFulfillment (orderService (scope req)) TransactionManager
             (fulfillment_id (params req)) w1 = (Inr ord, w2)"
    and "retrieve (fulfillmentService (scope req)) TransactionManager (fulfillment_id (params req))
           (Some \<lparr>relations = [''items'', ''items.item'']\<rparr>) w2 = (Inl e, w3)"
  shows "handler clean req s =
     (Inl e, s\<lparr>world := w1,
        trace := trace s @ [FirstFetch req, TransactionBegin, Cancel req, Refetch req,
          TransactionRollback],
        rejected := rejected s @ [e]\<rparr>)"
proof -
  let ?s0 = "s\<lparr>world := w1, trace := trace s @ [FirstFetch req, TransactionBegin]\<rparr>"
  from assms(3) have c: "cancelFulfillment (orderService (scope req)) TransactionManager
             (fulfillment_id (params req)) (world ?s0) = (Inr ord, w2)" by simp
  show ?thesis
    using callback_refetch_fails[OF c assms(4)]
    by (simp add: handler_enters_transaction[OF assms(1,2)] await_def transaction_def)
qed

lemma handler_adjust_rejects:
  assumes "retrieve (fulfillmentService (scope req)) DefaultManager
             (fulfillment_id (params req)) None (world s) = (Inr f1, w1)"
    and "order_id f1 = JSString (id_param (params req))"
    and "cancelFulfillment (orderService (scope req)) TransactionManager
             (fulfillment_id (params req)) w1 = (Inr ord, w2)"
    and "retrieve (fulfillmentService (scope req)) TransactionManager (fulfillment_id (params req))
           (Some \<lparr>relations = [''items'', ''items.item'']\<rparr>) w2 = (Inr f2, w3)"
    and "truthy (location_id f2) \<and> inventoryService (scope req) \<noteq> None"
    and "allSettled
           (expected_promises (productVariantInventoryService (scope req)) TransactionManager
              f2 (items f2))
           (s\<lparr>world := w3,
              trace := trace s @ [FirstFetch req, TransactionBegin, Cancel req, Refetch req]
                @ expected_calls TransactionManager f2 (items f2)\<rparr>) = (ps, s4)"
    and "rejections (settled ps) = e # es"
  shows "handler clean req s =
     (Inl e, s4\<lparr>world := w1, trace := trace s4 @ [TransactionRollback]\<rparr>)"
proof -
  let ?s0 = "s\<lparr>world := w1, trace := trace s @ [FirstFetch req, TransactionBegin]\<rparr>"
  from assms(3) have c: "cancelFulfillment (orderService (scope req)) TransactionManager
             (fulfillment_id (params req)) (world ?s0) = (Inr ord, w2)" by simp
  from assms(6,7) have "promiseAll
           (expected_promises (productVariantInventoryService (scope req)) TransactionManager
              f2 (items f2))
           (s\<lparr>world := w3,
              trace := trace s @ [FirstFetch req, TransactionBegin, Cancel req, Refetch req]
                @ expected_calls TransactionManager f2 (items f2)\<rparr>) = (Inl e, s4)"
    by (simp add: promiseAll_def reject_first_rejections)
  with callback_adjusts[OF c assms(4,5)]
  have "transaction_callback req TransactionManager ?s0 = (Inl e, s4)"
    by (simp add: await_def)
  then show ?thesis
    by (simp add: handler_enters_transaction[OF assms(1,2)] await_def transaction_def)
qed

lemma handler_reload_rejects:
  assumes "retrieve (fulfillmentService (scope req)) DefaultManager
             (fulfillment_id (params req)) None (world s) = (Inr f1, w1)"
    and "order_id f1 = JSString (id_param (params req))"
    and "transaction (transaction_callback req)
           (s\<lparr>world := w1, trace := trace s @ [FirstFetch req]\<rparr>) = (Inr u, st)"
    and "retrieveWithTotals (orderService (scope req)) DefaultManager (id_param (params req))
           (retrieveConfig req) (req_includes req) (world st) = (Inl e, w)"
  shows "handler clean req s =
     (Inl e, st\<lparr>world := w, trace := trace st @ [Reload req], rejected := rejected st @ [e]\<rparr>)"
  using assms(3,4)
  by (simp add: handler_enters_transaction[OF assms(1,2)] await_def reload_def
      call_retrieveWithTotals_def invoke_def)

lemma callback_resolves:
  assumes "transaction_callback req m s = (Inr u, s2)"
  shows "\<exists>ord w2 f2 w3.
           cancelFulfillment (orderService (scope req)) m (fulfillment_id (params req)) (world s)
             = (Inr ord, w2)
         \<and> retrieve (fulfillmentService (scope req)) m (fulfillment_id (params req))
             (Some \<lparr>relations = [''items'', ''items.item'']\<rparr>) w2 = (Inr f2, w3)
         \<and> (if truthy (location_id f2) \<and> inventoryService (scope req) \<noteq> None
            then \<exists>vs. promiseAll
                        (expected_promises (productVariantInventoryService (scope req)) m f2
                           (items f2))
                        (s\<lparr>world := w3,
                           trace := trace s @ [CancelFulfillment m (fulfillment_id (params req)),
                             Retrieve m (fulfillment_id (params req))
                               (Some \<lparr>relations = [''items'', ''items.item'']\<rparr>)]
                             @ expected_calls m f2 (items f2)\<rparr>) = (Inr vs, s2)
            else s2 = s\<lparr>world := w3,
                         trace := trace s @ [CancelFulfillment m (fulfillment_id (params req)),
                           Retrieve m (fulfillment_id (params req))
                             (Some \<lparr>relations = [''items'', ''items.item'']\<rparr>)]\<rparr>)"
proof (cases "cancelFulfillment (orderService (scope req)) m (fulfillment_id (params req)) (world s)")
  case (Pair c w2)
  show ?thesis
  proof (cases c)
    case (Inl e)
    with Pair assms callback_cancel_fails[of req m s e w2] show ?thesis by simp
  next
    case (Inr ord)
    note cancel = Pair[unfolded Inr]
    show ?thesis
    proof (cases "retrieve (fulfillmentService (scope req)) m (fulfillment_id (params req))
           (Some \<lparr>relations = [''items'', ''items.item'']\<rparr>) w2")
      case (Pair c2 w3)
      show ?thesis
      proof (cases c2)
        case (Inl e)
        with Pair assms callback_refetch_fails[OF cancel, of e w3] show ?thesis by simp
      next
        case (Inr f2)
        note refetch = Pair[unfolded Inr]
        show ?thesis
        proof (cases "truthy (location_id f2) \<and> inventoryService (scope req) \<noteq> None")
          case True
          let ?P = "expected_promises (productVariantInventoryService (scope req)) m f2 (items f2)"
          let ?S = "s\<lparr>world := w3,
                      trace := trace s @ [CancelFulfillment m (fulfillment_id (params req)),
                        Retrieve m (fulfillment_id (params req))
                          (Some \<lparr>relations = [''items'', ''items.item'']\<rparr>)]
                        @ expected_calls m f2 (items f2)\<rparr>"
          obtain rp sp where p: "promiseAll ?P ?S = (rp, sp)" by (cases "promiseAll ?P ?S")
          from callback_adjusts[OF cancel refetch True] assms p
          have "\<exists>vs. rp = Inr vs \<and> sp = s2"
            by (cases rp) (simp_all add: await_def resolve_def)
          with p have "\<exists>vs. promiseAll ?P ?S = (Inr vs, s2)" by auto
          with cancel refetch show ?thesis
            by (intro exI[of _ ord] exI[of _ w2] exI[of _ f2] exI[of _ w3] conjI)
               (simp_all only: if_P[OF True])
        next
          case False
          from callback_skips[OF cancel refetch False] assms
          have "s2 = s\<lparr>world := w3,
                         trace := trace s @ [CancelFulfillment m (fulfillment_id (params req)),
                           Retrieve m (fulfillment_id (params req))
                             (Some \<lparr>relations = [''items'', ''items.item'']\<rparr>)]\<rparr>"
            by (simp add: resolve_def)
          with cancel refetch show ?thesis
            by (intro exI[of _ ord] exI[of _ w2] exI[of _ f2] exI[of _ w3] conjI)
               (simp_all only: if_not_P[OF False])
        qed
      qed
    qed
  qed
qed

lemma handler_resolves:
  assumes "handler clean req s = (Inr body, s')"
  shows "\<exists>f1 w1 ord w2 f2 w3 s4 order.
           retrieve (fulfillmentService (scope req)) DefaultManager
             (fulfillment_id (params req)) None (world s) = (Inr f1, w1)
         \<and> order_id f1 = JSString (id_param (params req))
         \<and> cancelFulfillment (orderService (scope req)) TransactionManager
             (fulfillment_id (params req)) w1 = (Inr ord, w2)
         \<and> retrieve (fulfillmentService (scope req)) TransactionManager
             (fulfillment_id (params req))
             (Some \<lparr>relations = [''items'', ''items.item'']\<rparr>) w2 = (Inr f2, w3)
         \<and> (if truthy (location_id f2) \<and> inventoryService (scope req) \<noteq> None
            then \<exists>vs. promiseAll
                        (expected_promises (productVariantInventoryService (scope req))
                           TransactionManager f2 (items f2))
                        (s\<lparr>world := w3,
                           trace := trace s @ [FirstFetch req, TransactionBegin, Cancel req,
                             Refetch req]
                             @ expected_calls TransactionManager f2 (items f2)\<rparr>) = (Inr vs, s4)
            else s4 = s\<lparr>world := w3,
                         trace := trace s @ [FirstFetch req, TransactionBegin, Cancel req,
                           Refetch req]\<rparr>)
         \<and> retrieveWithTotals (orderService (scope req)) DefaultManager (id_param (params req))
             (retrieveConfig req) (req_includes req) (world s4) = (Inr order, world s')
         \<and> trace s' = trace s4 @ [TransactionCommit, Reload req]"
proof (cases "retrieve (fulfillmentService (scope req)) DefaultManager
                (fulfillment_id (params req)) None (world s)")
  case (Pair c w1)
  show ?thesis
  proof (cases c)
    case (Inl e)
    with Pair assms handler_first_fetch_fails[of req s e w1 clean] show ?thesis by simp
  next
    case (Inr f1)
    note fetch = Pair[unfolded Inr]
    show ?thesis
    proof (cases "order_id f1 = JSString (id_param (params req))")
      case False
      with assms handler_mismatch[OF fetch, of clean] show ?thesis by simp
    next
      case True
      let ?s1 = "s\<lparr>world := w1, trace := trace s @ [FirstFetch req]\<rparr>"
      let ?s0 = "s\<lparr>world := w1, trace := trace s @ [FirstFetch req, TransactionBegin]\<rparr>"
      note run = handler_enters_transaction[OF fetch True, of clean]
      obtain rc sc where cb: "transaction_callback req TransactionManager ?s0 = (rc, sc)"
        by (cases "transaction_callback req TransactionManager ?s0")
      show ?thesis
      proof (cases rc)
        case (Inl e)
        with run cb assms show ?thesis by (simp add: await_def transaction_def)
      next
        case (Inr u)
        with run cb assms
        have rl: "reload clean req (sc\<lparr>trace := trace sc @ [TransactionCommit]\<rparr>)
            = (Inr body, s')"
          by (simp add: await_def transaction_def)
        obtain ro wo where rw: "retrieveWithTotals (orderService (scope req)) DefaultManager
            (id_param (params req)) (retrieveConfig req) (req_includes req) (world sc) = (ro, wo)"
          by (cases "retrieveWithTotals (orderService (scope req)) DefaultManager
            (id_param (params req)) (retrieveConfig req) (req_includes req) (world sc)")
        from rl rw obtain order where o: "ro = Inr order" "world s' = wo"
          by (cases ro)
             (auto simp: reload_def await_def call_retrieveWithTotals_def invoke_def resolve_def)
        from reload_trace[OF rl]
        have tr: "trace s' = trace sc @ [TransactionCommit, Reload req]" by simp
        from callback_resolves[OF cb[unfolded Inr]] obtain ord w2 f2 w3 where
          c: "cancelFulfillment (orderService (scope req)) TransactionManager
                (fulfillment_id (params req)) (world ?s0) = (Inr ord, w2)"
          and f: "retrieve (fulfillmentService (scope req)) TransactionManager
                (fulfillment_id (params req))
                (Some \<lparr>relations = [''items'', ''items.item'']\<rparr>) w2 = (Inr f2, w3)"
          and g: "if truthy (location_id f2) \<and> inventoryService (scope req) \<noteq> None
            then \<exists>vs. promiseAll
                        (expected_promises (productVariantInventoryService (scope req))
                           TransactionManager f2 (items f2))
                        (?s0\<lparr>world := w3,
                           trace := trace ?s0 @ [Cancel req, Refetch req]
                             @ expected_calls TransactionManager f2 (items f2)\<rparr>) = (Inr vs, sc)
            else sc = ?s0\<lparr>world := w3, trace := trace ?s0 @ [Cancel req, Refetch req]\<rparr>"
          by blast
        from g have g': "if truthy (location_id f2) \<and> inventoryService (scope req) \<noteq> None
            then \<exists>vs. promiseAll
                        (expected_promises (productVariantInventoryService (scope req))
                           TransactionManager f2 (items f2))
                        (s\<lparr>world := w3,
                           trace := trace s @ [FirstFetch req, TransactionBegin, Cancel req,
                             Refetch req]
                             @ expected_calls TransactionManager f2 (items f2)\<rparr>) = (Inr vs, sc)
            else sc = s\<lparr>world := w3,
                         trace := trace s @ [FirstFetch req, TransactionBegin, Cancel req,
                           Refetch req]\<rparr>"
        proof (cases "truthy (location_id f2) \<and> inventoryService (scope req) \<noteq> None")
          case True
          from g have "\<exists>vs. promiseAll
                        (expected_promises (productVariantInventoryService (scope req))
                           TransactionManager f2 (items f2))
                        (?s0\<lparr>world := w3,
                           trace := trace ?s0 @ [Cancel req, Refetch req]
                             @ expected_calls TransactionManager f2 (items f2)\<rparr>) = (Inr vs, sc)"
            unfolding if_P[OF True] .
          then have "\<exists>vs. promiseAll
                        (expected_promises (productVariantInventoryService (scope req))
                           TransactionManager f2 (items f2))
                        (s\<lparr>world := w3,
                           trace := trace s @ [FirstFetch req, TransactionBegin, Cancel req,
                             Refetch req]
                             @ expected_calls TransactionManager f2 (items f2)\<rparr>) = (Inr vs, sc)"
            by simp
          then show ?thesis unfolding if_P[OF True] .
        next
          case False
          from g have "sc = ?s0\<lparr>world := w3, trace := trace ?s0 @ [Cancel req, Refetch req]\<rparr>"
            unfolding if_not_P[OF False] .
          then have "sc = s\<lparr>world := w3,
                         trace := trace s @ [FirstFetch req, TransactionBegin, Cancel req,
                           Refetch req]\<rparr>"
            by simp
          then show ?thesis unfolding if_not_P[OF False] .
        qed
        from c have c': "cancelFulfillment (orderService (scope req)) TransactionManager
                (fulfillment_id (params req)) w1 = (Inr ord, w2)" by simp
        from fetch True c' f g' rw o tr show ?thesis
          by (intro exI[of _ f1] exI[of _ w1] exI[of _ ord] exI[of _ w2] exI[of _ f2]
                exI[of _ w3] exI[of _ sc] exI[of _ order] conjI) simp_all
      qed
    qed
  qed
qed

lemmas example_defs = example_first_def example_refetched_def example_two_failures_def
  example_scope_def example_req_def example_state_def

lemmas run_defs = handler_def transaction_def transaction_callback_def await_def resolve_def
  call_retrieve_def call_cancelFulfillment_def call_retrieveWithTotals_def
  call_adjustInventory_def invoke_def start_def
  adjustInventoryForCancelledFulfillment_def adjustItem_def
  promiseAll_def allSettled_def settle_def

subsection \<open>The ownership check\<close>

text \<open>
  Claim C1. When the fulfillment fetched for the path's fulfillment id has an
  \<^verbatim>\<open>order_id\<close> other than the path's order id, the handler rejects with a
  \<open>NOT_FOUND\<close> error whose message contains both ids. The run has made the one call
  that fetched the fulfillment and nothing else: neither \<^verbatim>\<open>cancelFulfillment\<close> nor
  \<^verbatim>\<open>adjustInventory\<close> is called, and the database is the one that fetch left.
\<close>

theorem ownership_mismatch_not_found:
  assumes "retrieve (fulfillmentService (scope req)) DefaultManager
             (fulfillment_id (params req)) None (world s) = (Inr fulfillment, w)"
    and "order_id fulfillment \<noteq> JSString (id_param (params req))"
  shows "\<exists>message.
           handler clean req s =
             (Inl (MedusaError NOT_FOUND message),
              s\<lparr>world := w, trace := trace s @ [FirstFetch req]\<rparr>)
         \<and> sublist (fulfillment_id (params req)) message
         \<and> sublist (id_param (params req)) message"
proof (intro exI conjI)
  show "handler clean req s =
     (Inl (MedusaError NOT_FOUND
        (not_found_message (fulfillment_id (params req)) (id_param (params req)))),
      s\<lparr>world := w, trace := trace s @ [FirstFetch req]\<rparr>)"
    by (rule handler_mismatch[OF assms])
  show "sublist (fulfillment_id (params req))
     (not_found_message (fulfillment_id (params req)) (id_param (params req)))"
    unfolding not_found_message_def by (rule sublist_appendI)
  have "sublist (id_param (params req))
     ((''no fulfillment was found with the id: '' @ fulfillment_id (params req)
        @ '' related to order: '') @ id_param (params req))"
    by (rule sublist_append_leftI)
  then show "sublist (id_param (params req))
     (not_found_message (fulfillment_id (params req)) (id_param (params req)))"
    by (simp add: not_found_message_def)
qed

theorem ownership_mismatch_not_found_witness:
  "\<exists>message.
     handler (\<lambda>order exclude. order)
       (example_req ''order_2'' ''ful_1'' (Some IInventoryService)
          (example_refetched (JSString ''sloc_1'') ''variant_2'')) example_state =
       (Inl (MedusaError NOT_FOUND message),
        \<lparr>world = (False, 0), trace = [Retrieve DefaultManager ''ful_1'' None],
         rejected = [], schedule = []\<rparr>)
   \<and> sublist ''ful_1'' message \<and> sublist ''order_2'' message"
proof -
  let ?req = "example_req ''order_2'' ''ful_1'' (Some IInventoryService)
        (example_refetched (JSString ''sloc_1'') ''variant_2'')"
  have h1: "retrieve (fulfillmentService (scope ?req)) DefaultManager
      (fulfillment_id (params ?req)) None (world example_state) = (Inr example_first, (False, 0))"
    by (simp add: example_defs)
  have h2: "order_id example_first \<noteq> JSString (id_param (params ?req))"
    by (simp add: example_defs)
  show ?thesis
    using ownership_mismatch_not_found[OF h1 h2, of "\<lambda>order exclude. order"]
    by (simp add: example_req_def example_state_def)
qed

subsection \<open>Inventory adjustment\<close>

text \<open>
  Claim C2. In a run that reaches the guard (the first fetch matches the order, the
  cancellation and the second fetch succeed) with a truthy \<^verbatim>\<open>location_id\<close> on the
  fetched fulfillment and an inventory service present, the \<^verbatim>\<open>adjustInventory\<close>
  calls logged by the run are exactly one per fulfillment item whose order item has a
  truthy \<^verbatim>\<open>variant_id\<close>, in item order, each with that item's variant, the
  fulfillment's location and that item's quantity; the other items cause no call. The
  calls are the ones logged: on the database that the second fetch left, the callback
  hands to \<^verbatim>\<open>promiseAll\<close> one promise per item, which for an item with a truthy
  \<^verbatim>\<open>variant_id\<close> is the call of the service's \<^verbatim>\<open>adjustInventory\<close> under the
  transaction's manager with that variant, that location and that quantity, in flight,
  and for any other item is fulfilled without a call; and when \<^verbatim>\<open>promiseAll\<close> is done,
  none of these calls is in flight any more. This holds whether or not some of the calls
  reject.
\<close>

theorem adjustInventory_once_per_variant_item:
  assumes "retrieve (fulfillmentService (scope req)) DefaultManager
             (fulfillment_id (params req)) None (world s) = (Inr f1, w1)"
    and "order_id f1 = JSString (id_param (params req))"
    and "cancelFulfillment (orderService (scope req)) TransactionManager
             (fulfillment_id (params req)) w1 = (Inr ord, w2)"
    and "retrieve (fulfillmentService (scope req)) TransactionManager (fulfillment_id (params req))
           (Some \<lparr>relations = [''items'', ''items.item'']\<rparr>) w2 = (Inr fulfillment, w3)"
    and "truthy (location_id fulfillment)"
    and "inventoryService (scope req) \<noteq> None"
  shows "filter is_AdjustInventory (drop (length (trace s)) (trace (snd (handler clean req s)))) =
     map (\<lambda>fi. AdjustInventory TransactionManager
                 (variant_id (item fi)) (location_id fulfillment) (quantity fi))
       (filter (\<lambda>fi. truthy (variant_id (item fi))) (items fulfillment))
   \<and> transaction_callback req TransactionManager
       (s\<lparr>world := w1, trace := trace s @ [FirstFetch req, TransactionBegin]\<rparr>) =
     await
       (promiseAll
          (map (\<lambda>fi. if truthy (variant_id (item fi))
                     then InFlight (adjustInventory (productVariantInventoryService (scope req))
                                      TransactionManager
                                      (variant_id (item fi)) (location_id fulfillment)
                                      (quantity fi))
                     else Settled (Inr ()))
             (items fulfillment)))
       (\<lambda>_. resolve ())
       (s\<lparr>world := w3,
          trace := trace s @ [FirstFetch req, TransactionBegin, Cancel req, Refetch req]
            @ map (\<lambda>fi. AdjustInventory TransactionManager
                          (variant_id (item fi)) (location_id fulfillment) (quantity fi))
                (filter (\<lambda>fi. truthy (variant_id (item fi))) (items fulfillment))\<rparr>)
   \<and> (\<forall>p \<in> set (fst (allSettled
          (map (\<lambda>fi. if truthy (variant_id (item fi))
                     then InFlight (adjustInventory (productVariantInventoryService (scope req))
                                      TransactionManager
                                      (variant_id (item fi)) (location_id fulfillment)
                                      (quantity fi))
                     else Settled (Inr ()))
             (items fulfillment))
          (s\<lparr>world := w3,
             trace := trace s @ [FirstFetch req, TransactionBegin, Cancel req, Refetch req]
               @ map (\<lambda>fi. AdjustInventory TransactionManager
                             (variant_id (item fi)) (location_id fulfillment) (quantity fi))
                   (filter (\<lambda>fi. truthy (variant_id (item fi))) (items fulfillment))\<rparr>))).
        \<not> in_flight p)"
proof (intro conjI)
  from assms(5,6)
  have g: "truthy (location_id fulfillment) \<and> inventoryService (scope req) \<noteq> None" by simp
  from handler_adjusts[OF assms(1-4) g, of clean] obtain tail
    where tr: "trace (snd (handler clean req s)) =
           trace s @ [FirstFetch req, TransactionBegin, Cancel req, Refetch req]
             @ expected_calls TransactionManager fulfillment (items fulfillment) @ tail"
      and tail: "tail = [TransactionRollback] \<or> tail = [TransactionCommit, Reload req]"
    by blast
  from tail have "filter is_AdjustInventory tail = []" by auto
  with tr have "filter is_AdjustInventory (drop (length (trace s)) (trace (snd (handler clean req s))))
      = expected_calls TransactionManager fulfillment (items fulfillment)"
    by (simp add: filter_expected_calls)
  then show "filter is_AdjustInventory
      (drop (length (trace s)) (trace (snd (handler clean req s)))) =
     map (\<lambda>fi. AdjustInventory TransactionManager
                 (variant_id (item fi)) (location_id fulfillment) (quantity fi))
       (filter (\<lambda>fi. truthy (variant_id (item fi))) (items fulfillment))"
    by (simp add: expected_calls_def)
  let ?s0 = "s\<lparr>world := w1, trace := trace s @ [FirstFetch req, TransactionBegin]\<rparr>"
  from assms(3) have c: "cancelFulfillment (orderService (scope req)) TransactionManager
             (fulfillment_id (params req)) (world ?s0) = (Inr ord, w2)" by simp
  from callback_adjusts[OF c assms(4) g]
  show "transaction_callback req TransactionManager ?s0 =
     await
       (promiseAll
          (map (\<lambda>fi. if truthy (variant_id (item fi))
                     then InFlight (adjustInventory (productVariantInventoryService (scope req))
                                      TransactionManager
                                      (variant_id (item fi)) (location_id fulfillment)
                                      (quantity fi))
                     else Settled (Inr ()))
             (items fulfillment)))
       (\<lambda>_. resolve ())
       (s\<lparr>world := w3,
          trace := trace s @ [FirstFetch req, TransactionBegin, Cancel req, Refetch req]
            @ map (\<lambda>fi. AdjustInventory TransactionManager
                          (variant_id (item fi)) (location_id fulfillment) (quantity fi))
                (filter (\<lambda>fi. truthy (variant_id (item fi))) (items fulfillment))\<rparr>)"
    by (simp add: expected_promises_def expected_calls_def)
  show "\<forall>p \<in> set (fst (allSettled
          (map (\<lambda>fi. if truthy (variant_id (item fi))
                     then InFlight (adjustInventory (productVariantInventoryService (scope req))
                                      TransactionManager
                                      (variant_id (item fi)) (location_id fulfillment)
                                      (quantity fi))
                     else Settled (Inr ()))
             (items fulfillment))
          (s\<lparr>world := w3,
             trace := trace s @ [FirstFetch req, TransactionBegin, Cancel req, Refetch req]
               @ map (\<lambda>fi. AdjustInventory TransactionManager
                             (variant_id (item fi)) (location_id fulfillment) (quantity fi))
                   (filter (\<lambda>fi. truthy (variant_id (item fi))) (items fulfillment))\<rparr>))).
        \<not> in_flight p"
    using allSettled_complete[OF surjective_pairing] by blast
qed

theorem adjustInventory_once_per_variant_item_witness:
  "filter is_AdjustInventory (drop (length (trace example_state))
     (trace (snd (handler (\<lambda>order exclude. order)
        (example_req ''order_1'' ''ful_1'' (Some IInventoryService)
           (example_refetched (JSString ''sloc_1'') ''variant_2'')) example_state)))) =
     [AdjustInventory TransactionManager (JSString ''variant_1'') (JSString ''sloc_1'') 2,
      AdjustInventory TransactionManager (JSString ''variant_2'') (JSString ''sloc_1'') 0,
      AdjustInventory TransactionManager (JSString ''variant_3'') (JSString ''sloc_1'') 1]
   \<and> transaction_callback
       (example_req ''order_1'' ''ful_1'' (Some IInventoryService)
          (example_refetched (JSString ''sloc_1'') ''variant_2''))
       TransactionManager
       \<lparr>world = (False, 0), trace = [Retrieve DefaultManager ''ful_1'' None, TransactionBegin],
        rejected = [], schedule = []\<rparr>
     = (Inr (),
        \<lparr>world = (True, 3),
         trace = [Retrieve DefaultManager ''ful_1'' None, TransactionBegin,
           CancelFulfillment TransactionManager ''ful_1'',
           Retrieve TransactionManager ''ful_1''
             (Some \<lparr>relations = [''items'', ''items.item'']\<rparr>),
           AdjustInventory TransactionManager (JSString ''variant_1'') (JSString ''sloc_1'') 2,
           AdjustInventory TransactionManager (JSString ''variant_2'') (JSString ''sloc_1'') 0,
           AdjustInventory TransactionManager (JSString ''variant_3'') (JSString ''sloc_1'') 1],
         rejected = [], schedule = []\<rparr>)"
proof -
  let ?f = "example_refetched (JSString ''sloc_1'') ''variant_2''"
  let ?req = "example_req ''order_1'' ''ful_1'' (Some IInventoryService) ?f"
  have h1: "retrieve (fulfillmentService (scope ?req)) DefaultManager
      (fulfillment_id (params ?req)) None (world example_state) = (Inr example_first, (False, 0))"
    by (simp add: example_defs)
  have h2: "order_id example_first = JSString (id_param (params ?req))"
    by (simp add: example_defs)
  have h3: "cancelFulfillment (orderService (scope ?req)) TransactionManager
      (fulfillment_id (params ?req)) (False, 0) = (Inr ''order_1'', (True, 0))"
    by (simp add: example_defs)
  have h4: "retrieve (fulfillmentService (scope ?req)) TransactionManager
      (fulfillment_id (params ?req)) (Some \<lparr>relations = [''items'', ''items.item'']\<rparr>) (True, 0)
      = (Inr ?f, (True, 0))"
    by (simp add: example_defs)
  have h5: "truthy (location_id ?f)" by (simp add: example_defs)
  have h6: "inventoryService (scope ?req) \<noteq> None" by (simp add: example_defs)
  note inst = adjustInventory_once_per_variant_item[OF h1 h2 h3 h4 h5 h6,
      of "\<lambda>order exclude. order"]
  from inst[THEN conjunct1] inst[THEN conjunct2, THEN conjunct1]
  show ?thesis
    by (simp add: example_defs await_def resolve_def promiseAll_def allSettled_def settle_def)
qed

text \<open>
  Claim C4. In a run that reaches the guard, when the fetched fulfillment has no truthy
  \<^verbatim>\<open>location_id\<close> or no inventory service is configured, the run makes no
  \<^verbatim>\<open>adjustInventory\<close> call, yet \<^verbatim>\<open>cancelFulfillment\<close> is called and the
  transaction commits: the database the order is reloaded from is the one that the
  cancellation and the second fetch left.
\<close>

theorem no_adjustment_without_location_or_inventory_service:
  assumes "retrieve (fulfillmentService (scope req)) DefaultManager
             (fulfillment_id (params req)) None (world s) = (Inr f1, w1)"
    and "order_id f1 = JSString (id_param (params req))"
    and "cancelFulfillment (orderService (scope req)) TransactionManager
             (fulfillment_id (params req)) w1 = (Inr ord, w2)"
    and "retrieve (fulfillmentService (scope req)) TransactionManager (fulfillment_id (params req))
           (Some \<lparr>relations = [''items'', ''items.item'']\<rparr>) w2 = (Inr fulfillment, w3)"
    and "\<not> truthy (location_id fulfillment) \<or> inventoryService (scope req) = None"
  shows "trace (snd (handler clean req s)) =
           trace s @ [FirstFetch req, TransactionBegin, Cancel req, Refetch req,
                      TransactionCommit, Reload req]
       \<and> world (snd (handler clean req s)) =
           snd (retrieveWithTotals (orderService (scope req)) DefaultManager
                  (id_param (params req)) (retrieveConfig req) (req_includes req) w3)"
proof -
  from assms(5)
  have g: "\<not> (truthy (location_id fulfillment) \<and> inventoryService (scope req) \<noteq> None)" by auto
  show ?thesis
    by (simp add: handler_skips[OF assms(1-4) g] reload_world reload_trace_snd)
qed

theorem no_adjustment_without_location_or_inventory_service_witness:
  "trace (snd (handler (\<lambda>order exclude. order)
        (example_req ''order_1'' ''ful_1'' None
           (example_refetched (JSString ''sloc_1'') ''variant_2'')) example_state)) =
     [Retrieve DefaultManager ''ful_1'' None, TransactionBegin,
      CancelFulfillment TransactionManager ''ful_1'',
      Retrieve TransactionManager ''ful_1'' (Some \<lparr>relations = [''items'', ''items.item'']\<rparr>),
      TransactionCommit, RetrieveWithTotals DefaultManager ''order_1'' () ()]
   \<and> world (snd (handler (\<lambda>order exclude. order)
        (example_req ''order_1'' ''ful_1'' None
           (example_refetched (JSString ''sloc_1'') ''variant_2'')) example_state)) = (True, 0)"
proof -
  let ?f = "example_refetched (JSString ''sloc_1'') ''variant_2''"
  let ?req = "example_req ''order_1'' ''ful_1'' None ?f"
  have h1: "retrieve (fulfillmentService (scope ?req)) DefaultManager
      (fulfillment_id (params ?req)) None (world example_state) = (Inr example_first, (False, 0))"
    by (simp add: example_defs)
  have h2: "order_id example_first = JSString (id_param (params ?req))"
    by (simp add: example_defs)
  have h3: "cancelFulfillment (orderService (scope ?req)) TransactionManager
      (fulfillment_id (params ?req)) (False, 0) = (Inr ''order_1'', (True, 0))"
    by (simp add: example_defs)
  have h4: "retrieve (fulfillmentService (scope ?req)) TransactionManager
      (fulfillment_id (params ?req)) (Some \<lparr>relations = [''items'', ''items.item'']\<rparr>) (True, 0)
      = (Inr ?f, (True, 0))"
    by (simp add: example_defs)
  have h5: "\<not> truthy (location_id ?f) \<or> inventoryService (scope ?req) = None"
    by (simp add: example_defs)
  show ?thesis
    using no_adjustment_without_location_or_inventory_service[OF h1 h2 h3 h4 h5,
        of "\<lambda>order exclude. order"]
    by (simp add: example_req_def example_scope_def example_state_def)
qed

text \<open>
  Claim C9. The guard tests \<^verbatim>\<open>location_id\<close> for truthiness: in a run that reaches the
  guard with a \<^verbatim>\<open>location_id\<close> that is the empty string, \<^verbatim>\<open>null\<close> or
  \<^verbatim>\<open>undefined\<close>, the guard is false whether or not an inventory service is present, no
  \<^verbatim>\<open>adjustInventory\<close> call is made, and the cancellation proceeds: the calls of the
  run are the first fetch, the cancellation and the second fetch inside the transaction,
  the commit and the reload, and the database the order is reloaded from is the one that
  the cancellation and the second fetch left, with no adjustment applied.
\<close>

theorem falsy_location_id_skips_adjustment:
  assumes "retrieve (fulfillmentService (scope req)) DefaultManager
             (fulfillment_id (params req)) None (world s) = (Inr f1, w1)"
    and "order_id f1 = JSString (id_param (params req))"
    and "cancelFulfillment (orderService (scope req)) TransactionManager
             (fulfillment_id (params req)) w1 = (Inr ord, w2)"
    and "retrieve (fulfillmentService (scope req)) TransactionManager (fulfillment_id (params req))
           (Some \<lparr>relations = [''items'', ''items.item'']\<rparr>) w2 = (Inr fulfillment, w3)"
    and "location_id fulfillment = JSString []
       \<or> location_id fulfillment = JSNull
       \<or> location_id fulfillment = JSUndefined"
  shows "\<not> truthy (location_id fulfillment)
       \<and> filter is_AdjustInventory (drop (length (trace s)) (trace (snd (handler clean req s)))) = []
       \<and> drop (length (trace s)) (trace (snd (handler clean req s))) =
           [FirstFetch req, TransactionBegin, Cancel req, Refetch req, TransactionCommit, Reload req]
       \<and> handler clean req s =
           reload clean req
             (s\<lparr>world := w3,
                trace := trace s @ [FirstFetch req, TransactionBegin, Cancel req, Refetch req,
                  TransactionCommit]\<rparr>)
       \<and> world (snd (handler clean req s)) =
           snd (retrieveWithTotals (orderService (scope req)) DefaultManager
                  (id_param (params req)) (retrieveConfig req) (req_includes req) w3)"
proof -
  from assms(5) have f: "\<not> truthy (location_id fulfillment)" by auto
  then have g: "\<not> (truthy (location_id fulfillment) \<and> inventoryService (scope req) \<noteq> None)"
    by simp
  from f show ?thesis
    by (simp add: handler_skips[OF assms(1-4) g] reload_trace_snd reload_world)
qed

theorem falsy_location_id_skips_adjustment_witness:
  "\<not> truthy (JSString []) \<and>
   filter is_AdjustInventory (drop (length (trace example_state))
     (trace (snd (handler (\<lambda>order exclude. order)
        (example_req ''order_1'' ''ful_1'' (Some IInventoryService)
           (example_refetched (JSString []) ''variant_2'')) example_state)))) = []
   \<and> drop (length (trace example_state))
     (trace (snd (handler (\<lambda>order exclude. order)
        (example_req ''order_1'' ''ful_1'' (Some IInventoryService)
           (example_refetched (JSString []) ''variant_2'')) example_state))) =
     [Retrieve DefaultManager ''ful_1'' None, TransactionBegin,
      CancelFulfillment TransactionManager ''ful_1'',
      Retrieve TransactionManager ''ful_1'' (Some \<lparr>relations = [''items'', ''items.item'']\<rparr>),
      TransactionCommit, RetrieveWithTotals DefaultManager ''order_1'' () ()]
   \<and> world (snd (handler (\<lambda>order exclude. order)
        (example_req ''order_1'' ''ful_1'' (Some IInventoryService)
           (example_refetched (JSString []) ''variant_2'')) example_state)) = (True, 0)"
proof -
  let ?f = "example_refetched (JSString []) ''variant_2''"
  let ?req = "example_req ''order_1'' ''ful_1'' (Some IInventoryService) ?f"
  have h1: "retrieve (fulfillmentService (scope ?req)) DefaultManager
      (fulfillment_id (params ?req)) None (world example_state) = (Inr example_first, (False, 0))"
    by (simp add: example_defs)
  have h2: "order_id example_first = JSString (id_param (params ?req))"
    by (simp add: example_defs)
  have h3: "cancelFulfillment (orderService (scope ?req)) TransactionManager
      (fulfillment_id (params ?req)) (False, 0) = (Inr ''order_1'', (True, 0))"
    by (simp add: example_defs)
  have h4: "retrieve (fulfillmentService (scope ?req)) TransactionManager
      (fulfillment_id (params ?req)) (Some \<lparr>relations = [''items'', ''items.item'']\<rparr>) (True, 0)
      = (Inr ?f, (True, 0))"
    by (simp add: example_defs)
  have h5: "location_id ?f = JSString [] \<or> location_id ?f = JSNull \<or> location_id ?f = JSUndefined"
    by (simp add: example_defs)
  note inst = falsy_location_id_skips_adjustment[OF h1 h2 h3 h4 h5, of "\<lambda>order exclude. order"]
  from inst[THEN conjunct1] inst[THEN conjunct2, THEN conjunct1]
    inst[THEN conjunct2, THEN conjunct2, THEN conjunct1]
    inst[THEN conjunct2, THEN conjunct2, THEN conjunct2, THEN conjunct2]
  show ?thesis
    by (simp add: example_req_def example_scope_def example_refetched_def)
qed

text \<open>
  Claim C10. Whether inventory is adjusted, and with which arguments, is read off the
  fulfillment that the second fetch returns: the fetch made inside the transaction, with
  the relations, on the database that \<^verbatim>\<open>cancelFulfillment\<close> left. The fulfillment
  \<open>f1\<close> of the first fetch only enters the ownership check. The callback either hands
  to \<^verbatim>\<open>promiseAll\<close> the promises that the items of the re-fetched fulfillment ask for,
  whose calls of \<^verbatim>\<open>adjustInventory\<close> all carry the \<^verbatim>\<open>location_id\<close> of that one
  re-fetched fulfillment and the variant and quantity of its items, or, when the guard
  on the re-fetched fulfillment is false, makes no such call; and the
  \<^verbatim>\<open>adjustInventory\<close> calls logged by the run are those.
\<close>

theorem adjustment_uses_refetched_fulfillment:
  assumes "retrieve (fulfillmentService (scope req)) DefaultManager
             (fulfillment_id (params req)) None (world s) = (Inr f1, w1)"
    and "order_id f1 = JSString (id_param (params req))"
    and "cancelFulfillment (orderService (scope req)) TransactionManager
             (fulfillment_id (params req)) w1 = (Inr ord, w2)"
    and "retrieve (fulfillmentService (scope req)) TransactionManager (fulfillment_id (params req))
           (Some \<lparr>relations = [''items'', ''items.item'']\<rparr>) w2 = (Inr refetched, w3)"
  shows "filter is_AdjustInventory (drop (length (trace s)) (trace (snd (handler clean req s)))) =
     (if truthy (location_id refetched) \<and> inventoryService (scope req) \<noteq> None
      then map (\<lambda>fi. AdjustInventory TransactionManager
                        (variant_id (item fi)) (location_id refetched) (quantity fi))
             (filter (\<lambda>fi. truthy (variant_id (item fi))) (items refetched))
      else [])
   \<and> transaction_callback req TransactionManager
       (s\<lparr>world := w1, trace := trace s @ [FirstFetch req, TransactionBegin]\<rparr>) =
     (if truthy (location_id refetched) \<and> inventoryService (scope req) \<noteq> None
      then await
             (promiseAll
                (map (\<lambda>fi. if truthy (variant_id (item fi))
                           then InFlight
                                  (adjustInventory (productVariantInventoryService (scope req))
                                     TransactionManager
                                     (variant_id (item fi)) (location_id refetched)
                                     (quantity fi))
                           else Settled (Inr ()))
                   (items refetched)))
             (\<lambda>_. resolve ())
             (s\<lparr>world := w3,
                trace := trace s @ [FirstFetch req, TransactionBegin, Cancel req, Refetch req]
                  @ map (\<lambda>fi. AdjustInventory TransactionManager
                                (variant_id (item fi)) (location_id refetched) (quantity fi))
                      (filter (\<lambda>fi. truthy (variant_id (item fi))) (items refetched))\<rparr>)
      else (Inr (),
            s\<lparr>world := w3,
               trace := trace s @ [FirstFetch req, TransactionBegin, Cancel req, Refetch req]\<rparr>))"
proof (cases "truthy (location_id refetched) \<and> inventoryService (scope req) \<noteq> None")
  case True
  from handler_adjusts[OF assms(1-4) True, of clean] obtain tail
    where tr: "trace (snd (handler clean req s)) =
           trace s @ [FirstFetch req, TransactionBegin, Cancel req, Refetch req]
             @ expected_calls TransactionManager refetched (items refetched) @ tail"
      and tail: "tail = [TransactionRollback] \<or> tail = [TransactionCommit, Reload req]"
    by blast
  from tail have "filter is_AdjustInventory tail = []" by auto
  with tr have calls: "filter is_AdjustInventory
        (drop (length (trace s)) (trace (snd (handler clean req s))))
      = expected_calls TransactionManager refetched (items refetched)"
    by (simp add: filter_expected_calls)
  let ?s0 = "s\<lparr>world := w1, trace := trace s @ [FirstFetch req, TransactionBegin]\<rparr>"
  from assms(3) have c: "cancelFulfillment (orderService (scope req)) TransactionManager
             (fulfillment_id (params req)) (world ?s0) = (Inr ord, w2)" by simp
  have cb: "transaction_callback req TransactionManager ?s0 =
     await (promiseAll (expected_promises (productVariantInventoryService (scope req))
                          TransactionManager refetched (items refetched)))
       (\<lambda>_. resolve ())
       (s\<lparr>world := w3,
          trace := trace s @ [FirstFetch req, TransactionBegin, Cancel req, Refetch req]
            @ expected_calls TransactionManager refetched (items refetched)\<rparr>)"
    using callback_adjusts[OF c assms(4) True] by simp
  from calls cb show ?thesis
    unfolding if_P[OF True] expected_calls_def expected_promises_def by (intro conjI)
next
  case False
  have calls: "filter is_AdjustInventory
      (drop (length (trace s)) (trace (snd (handler clean req s)))) = []"
    by (simp add: handler_skips[OF assms(1-4) False] reload_trace_snd)
  let ?s0 = "s\<lparr>world := w1, trace := trace s @ [FirstFetch req, TransactionBegin]\<rparr>"
  from assms(3) have c: "cancelFulfillment (orderService (scope req)) TransactionManager
             (fulfillment_id (params req)) (world ?s0) = (Inr ord, w2)" by simp
  have cb: "transaction_callback req TransactionManager ?s0 =
     (Inr (), s\<lparr>world := w3,
               trace := trace s @ [FirstFetch req, TransactionBegin, Cancel req, Refetch req]\<rparr>)"
    using callback_skips[OF c assms(4) False] by (simp add: resolve_def)
  from calls cb show ?thesis
    unfolding if_not_P[OF False] by (intro conjI)
qed

theorem adjustment_uses_refetched_fulfillment_witness:
  "location_id example_first = JSString ''sloc_old'' \<and> items example_first = [] \<and>
   filter is_AdjustInventory (drop (length (trace example_state))
     (trace (snd (handler (\<lambda>order exclude. order)
        (example_req ''order_1'' ''ful_1'' (Some IInventoryService)
           (example_refetched (JSString ''sloc_new'') ''variant_2'')) example_state)))) =
     [AdjustInventory TransactionManager (JSString ''variant_1'') (JSString ''sloc_new'') 2,
      AdjustInventory TransactionManager (JSString ''variant_2'') (JSString ''sloc_new'') 0,
      AdjustInventory TransactionManager (JSString ''variant_3'') (JSString ''sloc_new'') 1]
   \<and> transaction_callback
       (example_req ''order_1'' ''ful_1'' (Some IInventoryService)
          (example_refetched (JSString ''sloc_new'') ''variant_2''))
       TransactionManager
       \<lparr>world = (False, 0), trace = [Retrieve DefaultManager ''ful_1'' None, TransactionBegin],
        rejected = [], schedule = []\<rparr>
     = (Inr (),
        \<lparr>world = (True, 3),
         trace = [Retrieve DefaultManager ''ful_1'' None, TransactionBegin,
           CancelFulfillment TransactionManager ''ful_1'',
           Retrieve TransactionManager ''ful_1''
             (Some \<lparr>relations = [''items'', ''items.item'']\<rparr>),
           AdjustInventory TransactionManager (JSString ''variant_1'') (JSString ''sloc_new'') 2,
           AdjustInventory TransactionManager (JSString ''variant_2'') (JSString ''sloc_new'') 0,
           AdjustInventory TransactionManager (JSString ''variant_3'') (JSString ''sloc_new'') 1],
         rejected = [], schedule = []\<rparr>)"
proof -
  let ?f = "example_refetched (JSString ''sloc_new'') ''variant_2''"
  let ?req = "example_req ''order_1'' ''ful_1'' (Some IInventoryService) ?f"
  have h1: "retrieve (fulfillmentService (scope ?req)) DefaultManager
      (fulfillment_id (params ?req)) None (world example_state) = (Inr example_first, (False, 0))"
    by (simp add: example_defs)
  have h2: "order_id example_first = JSString (id_param (params ?req))"
    by (simp add: example_defs)
  have h3: "cancelFulfillment (orderService (scope ?req)) TransactionManager
      (fulfillment_id (params ?req)) (False, 0) = (Inr ''order_1'', (True, 0))"
    by (simp add: example_defs)
  have h4: "retrieve (fulfillmentService (scope ?req)) TransactionManager
      (fulfillment_id (params ?req)) (Some \<lparr>relations = [''items'', ''items.item'']\<rparr>) (True, 0)
      = (Inr ?f, (True, 0))"
    by (simp add: example_defs)
  note inst = adjustment_uses_refetched_fulfillment[OF h1 h2 h3 h4, of "\<lambda>order exclude. order"]
  from inst[THEN conjunct1] inst[THEN conjunct2]
  show ?thesis
    by (simp add: example_defs await_def resolve_def promiseAll_def allSettled_def settle_def)
qed

text \<open>
  Claim C8. \<^verbatim>\<open>adjustInventoryForCancelledFulfillment\<close> guards a call by the item's
  \<^verbatim>\<open>variant_id\<close> only. It hands to \<^verbatim>\<open>promiseAll\<close> one promise per item, which for
  every item with a truthy \<^verbatim>\<open>variant_id\<close>, whatever its quantity, is the call of the
  service's \<^verbatim>\<open>adjustInventory\<close> with that variant, the fulfillment's location and that
  quantity, in flight. So an item with a truthy \<^verbatim>\<open>variant_id\<close> and quantity 0 gets its
  call, with quantity 0: the call is among those started and is logged; and for a
  fulfillment with that one item, what the function does to the database and what it
  returns is what the service's \<^verbatim>\<open>adjustInventory\<close> with quantity 0 does and returns.
\<close>

theorem zero_quantity_is_still_adjusted:
  "adjustInventoryForCancelledFulfillment fulfillment (service, m) s =
     promiseAll
       (map (\<lambda>fi. if truthy (variant_id (item fi))
                  then InFlight (adjustInventory service m
                                   (variant_id (item fi)) (location_id fulfillment) (quantity fi))
                  else Settled (Inr ()))
          (items fulfillment))
       (s\<lparr>trace := trace s @
            map (\<lambda>fi. AdjustInventory m (variant_id (item fi)) (location_id fulfillment)
                        (quantity fi))
              (filter (\<lambda>fi. truthy (variant_id (item fi))) (items fulfillment))\<rparr>)
   \<and> trace (snd (adjustInventoryForCancelledFulfillment fulfillment (service, m) s)) =
       trace s @ map (\<lambda>fi. AdjustInventory m (variant_id (item fi)) (location_id fulfillment)
                              (quantity fi))
                   (filter (\<lambda>fi. truthy (variant_id (item fi))) (items fulfillment))
   \<and> (\<forall>fi \<in> set (items fulfillment).
        truthy (variant_id (item fi)) \<and> quantity fi = 0 \<longrightarrow>
          AdjustInventory m (variant_id (item fi)) (location_id fulfillment) 0
            \<in> set (drop (length (trace s))
                 (trace (snd (adjustInventoryForCancelledFulfillment fulfillment (service, m) s))))
        \<and> InFlight (adjustInventory service m (variant_id (item fi)) (location_id fulfillment) 0)
            \<in> set (fst (map_async (adjustItem fulfillment (service, m)) (items fulfillment) s)))
   \<and> (\<forall>fi. items fulfillment = [fi] \<and> truthy (variant_id (item fi)) \<and> quantity fi = 0 \<longrightarrow>
        adjustInventoryForCancelledFulfillment fulfillment (service, m) s =
          (case adjustInventory service m (variant_id (item fi)) (location_id fulfillment) 0
                  (world s) of
             (Inl e, w') \<Rightarrow>
               (Inl e,
                s\<lparr>world := w',
                   trace := trace s @
                     [AdjustInventory m (variant_id (item fi)) (location_id fulfillment) 0],
                   rejected := rejected s @ [e]\<rparr>)
           | (Inr u, w') \<Rightarrow>
               (Inr [()],
                s\<lparr>world := w',
                   trace := trace s @
                     [AdjustInventory m (variant_id (item fi)) (location_id fulfillment) 0]\<rparr>)))"
proof (intro conjI ballI allI impI)
  show run: "adjustInventoryForCancelledFulfillment fulfillment (service, m) s =
     promiseAll
       (map (\<lambda>fi. if truthy (variant_id (item fi))
                  then InFlight (adjustInventory service m
                                   (variant_id (item fi)) (location_id fulfillment) (quantity fi))
                  else Settled (Inr ()))
          (items fulfillment))
       (s\<lparr>trace := trace s @
            map (\<lambda>fi. AdjustInventory m (variant_id (item fi)) (location_id fulfillment)
                        (quantity fi))
              (filter (\<lambda>fi. truthy (variant_id (item fi))) (items fulfillment))\<rparr>)"
    using adjust_run[of fulfillment service m s]
    by (simp add: expected_promises_def expected_calls_def)
  have tr: "trace (snd (adjustInventoryForCancelledFulfillment fulfillment (service, m) s)) =
     trace s @ expected_calls m fulfillment (items fulfillment)"
    using adjust_run_trace[OF surjective_pairing] .
  then show "trace (snd (adjustInventoryForCancelledFulfillment fulfillment (service, m) s)) =
       trace s @ map (\<lambda>fi. AdjustInventory m (variant_id (item fi)) (location_id fulfillment)
                              (quantity fi))
                   (filter (\<lambda>fi. truthy (variant_id (item fi))) (items fulfillment))"
    by (simp add: expected_calls_def)
  {
    fix fi
    assume mem: "fi \<in> set (items fulfillment)"
      and z: "truthy (variant_id (item fi)) \<and> quantity fi = 0"
    from mem z
    have "AdjustInventory m (variant_id (item fi)) (location_id fulfillment) (quantity fi)
          \<in> set (expected_calls m fulfillment (items fulfillment))"
      by (auto simp: expected_calls_def intro!: image_eqI[of _ _ fi])
    with z tr
    show "AdjustInventory m (variant_id (item fi)) (location_id fulfillment) 0
        \<in> set (drop (length (trace s))
             (trace (snd (adjustInventoryForCancelledFulfillment fulfillment (service, m) s))))"
      by simp
    from mem z
    have "InFlight (adjustInventory service m (variant_id (item fi)) (location_id fulfillment)
                      (quantity fi))
          \<in> set (expected_promises service m fulfillment (items fulfillment))"
      by (auto simp: expected_promises_def intro!: image_eqI[of _ _ fi])
    with z
    show "InFlight (adjustInventory service m (variant_id (item fi)) (location_id fulfillment) 0)
        \<in> set (fst (map_async (adjustItem fulfillment (service, m)) (items fulfillment) s))"
      by (simp add: map_async_adjustItem)
  }
  {
    fix fi
    assume one: "items fulfillment = [fi] \<and> truthy (variant_id (item fi)) \<and> quantity fi = 0"
    then show "adjustInventoryForCancelledFulfillment fulfillment (service, m) s =
          (case adjustInventory service m (variant_id (item fi)) (location_id fulfillment) 0
                  (world s) of
             (Inl e, w') \<Rightarrow>
               (Inl e,
                s\<lparr>world := w',
                   trace := trace s @
                     [AdjustInventory m (variant_id (item fi)) (location_id fulfillment) 0],
                   rejected := rejected s @ [e]\<rparr>)
           | (Inr u, w') \<Rightarrow>
               (Inr [()],
                s\<lparr>world := w',
                   trace := trace s @
                     [AdjustInventory m (variant_id (item fi)) (location_id fulfillment) 0]\<rparr>))"
      by (simp add: adjust_run expected_promises_def expected_calls_def promiseAll_single
          split: prod.splits sum.splits)
  }
qed

theorem zero_quantity_is_still_adjusted_witness:
  "AdjustInventory TransactionManager (JSString ''variant_2'') (JSString ''sloc_1'') 0
     \<in> set (drop (length (trace example_state))
          (trace (snd (adjustInventoryForCancelledFulfillment
             (example_refetched (JSString ''sloc_1'') ''variant_2'')
             (productVariantInventoryService (example_scope None example_first), TransactionManager)
             example_state))))
   \<and> InFlight (adjustInventory
         (productVariantInventoryService (example_scope None example_first)) TransactionManager
         (JSString ''variant_2'') (JSString ''sloc_1'') 0)
     \<in> set (fst (map_async
          (adjustItem (example_refetched (JSString ''sloc_1'') ''variant_2'')
             (productVariantInventoryService (example_scope None example_first),
              TransactionManager))
          (items (example_refetched (JSString ''sloc_1'') ''variant_2'')) example_state))
   \<and> adjustInventoryForCancelledFulfillment
       \<lparr>order_id = JSString ''order_1'', location_id = JSString ''sloc_1'',
        items = [\<lparr>item = \<lparr>variant_id = JSString ''variant_bad''\<rparr>, quantity = 0\<rparr>]\<rparr>
       (productVariantInventoryService (example_scope None example_first), TransactionManager)
       example_state
     = (Inl (Other ''no stock level''),
        \<lparr>world = (False, 100),
         trace = [AdjustInventory TransactionManager (JSString ''variant_bad'')
                    (JSString ''sloc_1'') 0],
         rejected = [Other ''no stock level''], schedule = []\<rparr>)"
proof -
  let ?f = "example_refetched (JSString ''sloc_1'') ''variant_2''"
  let ?fi = "\<lparr>item = \<lparr>variant_id = JSString ''variant_2''\<rparr>, quantity = 0\<rparr>"
  let ?svc = "productVariantInventoryService (example_scope None example_first)"
  let ?g = "\<lparr>order_id = JSString ''order_1'', location_id = JSString ''sloc_1'',
        items = [\<lparr>item = \<lparr>variant_id = JSString ''variant_bad''\<rparr>, quantity = 0\<rparr>]\<rparr>"
  let ?gi = "\<lparr>item = \<lparr>variant_id = JSString ''variant_bad''\<rparr>, quantity = 0\<rparr>"
  have h: "?fi \<in> set (items ?f)" "truthy (variant_id (item ?fi)) \<and> quantity ?fi = 0"
    by (simp_all add: example_refetched_def)
  have k: "items ?g = [?gi] \<and> truthy (variant_id (item ?gi)) \<and> quantity ?gi = 0"
    by simp
  note a = zero_quantity_is_still_adjusted[of ?f ?svc TransactionManager example_state,
      THEN conjunct2, THEN conjunct2, THEN conjunct1, rule_format, OF h]
  note b = zero_quantity_is_still_adjusted[of ?g ?svc TransactionManager example_state,
      THEN conjunct2, THEN conjunct2, THEN conjunct2, rule_format, OF k]
  from a b show ?thesis
    by (simp add: example_refetched_def example_scope_def example_state_def)
qed

subsection \<open>The transaction\<close>

text \<open>
  Claim C3. Once the ownership check has passed, the handler runs the callback in a
  transaction. When the callback rejects at any step (the cancellation, the second fetch
  or an inventory adjustment), the handler rejects with the same value and the database
  is the one from before the transaction, whatever the steps had written: neither the
  cancellation nor any adjustment takes effect. When the callback resolves, no call made
  inside it was rejected, and what it wrote is committed as a whole.
\<close>

theorem failed_transaction_rolls_back:
  assumes "retrieve (fulfillmentService (scope req)) DefaultManager
             (fulfillment_id (params req)) None (world s) = (Inr f1, w1)"
    and "order_id f1 = JSString (id_param (params req))"
    and "transaction_callback req TransactionManager
           (s\<lparr>world := w1, trace := trace s @ [FirstFetch req, TransactionBegin]\<rparr>) = (r, s2)"
  shows "case r of
           Inl e \<Rightarrow>
             handler clean req s =
               (Inl e, s2\<lparr>world := w1, trace := trace s2 @ [TransactionRollback]\<rparr>)
           \<and> world (snd (handler clean req s)) = w1
         | Inr u \<Rightarrow>
             rejected s2 = rejected s
           \<and> handler clean req s =
               reload clean req (s2\<lparr>trace := trace s2 @ [TransactionCommit]\<rparr>)"
proof (cases r)
  case (Inl e)
  with assms(3) show ?thesis
    by (simp add: handler_enters_transaction[OF assms(1,2)] await_def transaction_def)
next
  case (Inr u)
  from propagatesD[OF propagates_callback assms(3)] Inr
  have "rejected s2 = rejected s" by auto
  with Inr assms(3) show ?thesis
    by (simp add: handler_enters_transaction[OF assms(1,2)] await_def transaction_def)
qed

theorem failed_transaction_rolls_back_witness:
  "transaction_callback
     (example_req ''order_1'' ''ful_1'' (Some IInventoryService)
        (example_refetched (JSString ''sloc_1'') ''variant_bad''))
     TransactionManager
     \<lparr>world = (False, 0), trace = [Retrieve DefaultManager ''ful_1'' None, TransactionBegin],
      rejected = [], schedule = []\<rparr>
   = (Inl (Other ''no stock level''),
      \<lparr>world = (True, 103),
       trace = [Retrieve DefaultManager ''ful_1'' None, TransactionBegin,
         CancelFulfillment TransactionManager ''ful_1'',
         Retrieve TransactionManager ''ful_1'' (Some \<lparr>relations = [''items'', ''items.item'']\<rparr>),
         AdjustInventory TransactionManager (JSString ''variant_1'') (JSString ''sloc_1'') 2,
         AdjustInventory TransactionManager (JSString ''variant_bad'') (JSString ''sloc_1'') 0,
         AdjustInventory TransactionManager (JSString ''variant_3'') (JSString ''sloc_1'') 1],
       rejected = [Other ''no stock level''], schedule = []\<rparr>)
   \<and> handler (\<lambda>order exclude. order)
     (example_req ''order_1'' ''ful_1'' (Some IInventoryService)
        (example_refetched (JSString ''sloc_1'') ''variant_bad'')) example_state
   = (Inl (Other ''no stock level''),
      \<lparr>world = (False, 0),
       trace = [Retrieve DefaultManager ''ful_1'' None, TransactionBegin,
         CancelFulfillment TransactionManager ''ful_1'',
         Retrieve TransactionManager ''ful_1'' (Some \<lparr>relations = [''items'', ''items.item'']\<rparr>),
         AdjustInventory TransactionManager (JSString ''variant_1'') (JSString ''sloc_1'') 2,
         AdjustInventory TransactionManager (JSString ''variant_bad'') (JSString ''sloc_1'') 0,
         AdjustInventory TransactionManager (JSString ''variant_3'') (JSString ''sloc_1'') 1,
         TransactionRollback],
       rejected = [Other ''no stock level''], schedule = []\<rparr>)"
proof -
  let ?f = "example_refetched (JSString ''sloc_1'') ''variant_bad''"
  let ?req = "example_req ''order_1'' ''ful_1'' (Some IInventoryService) ?f"
  let ?s2 = "\<lparr>world = (True, 103),
       trace = [Retrieve DefaultManager ''ful_1'' None, TransactionBegin,
         CancelFulfillment TransactionManager ''ful_1'',
         Retrieve TransactionManager ''ful_1'' (Some \<lparr>relations = [''items'', ''items.item'']\<rparr>),
         AdjustInventory TransactionManager (JSString ''variant_1'') (JSString ''sloc_1'') 2,
         AdjustInventory TransactionManager (JSString ''variant_bad'') (JSString ''sloc_1'') 0,
         AdjustInventory TransactionManager (JSString ''variant_3'') (JSString ''sloc_1'') 1],
       rejected = [Other ''no stock level''], schedule = []\<rparr> :: (bool \<times> int, string, unit, unit) state"
  have h1: "retrieve (fulfillmentService (scope ?req)) DefaultManager
      (fulfillment_id (params ?req)) None (world example_state) = (Inr example_first, (False, 0))"
    by (simp add: example_defs)
  have h2: "order_id example_first = JSString (id_param (params ?req))"
    by (simp add: example_defs)
  have h3: "transaction_callback ?req TransactionManager
      (example_state\<lparr>world := (False, 0),
         trace := trace example_state @ [FirstFetch ?req, TransactionBegin]\<rparr>)
      = (Inl (Other ''no stock level''), ?s2)"
    by (simp add: run_defs example_defs)
  show ?thesis
    using failed_transaction_rolls_back[OF h1 h2 h3, of "\<lambda>order exclude. order"] h3
    by (simp add: example_req_def example_state_def)
qed

subsection \<open>The response\<close>

text \<open>
  Claim C6. When the handler resolves, the transaction has committed, and the order was
  then reloaded by \<^verbatim>\<open>retrieveWithTotals\<close> with the path's order id, the request's
  retrieve configuration and the request's includes, on the committed database. The body
  of the response has the single key \<^verbatim>\<open>order\<close>, and its value is the reloaded order
  passed through \<^verbatim>\<open>cleanResponseData\<close> with the empty list.
\<close>

theorem response_is_cleaned_reloaded_order:
  assumes "handler clean req s = (Inr body, s')"
  shows "\<exists>order committed.
           transaction (transaction_callback req)
             (s\<lparr>world := snd (retrieve (fulfillmentService (scope req)) DefaultManager
                                 (fulfillment_id (params req)) None (world s)),
                trace := trace s @ [FirstFetch req]\<rparr>) = (Inr (), committed)
         \<and> last (trace committed) = TransactionCommit
         \<and> retrieveWithTotals (orderService (scope req)) DefaultManager (id_param (params req))
             (retrieveConfig req) (req_includes req) (world committed) = (Inr order, world s')
         \<and> trace s' = trace committed @ [Reload req]
         \<and> body = [(''order'', clean order [])]
         \<and> map fst body = [''order'']"
proof (cases "retrieve (fulfillmentService (scope req)) DefaultManager
                (fulfillment_id (params req)) None (world s)")
  case (Pair c w1)
  show ?thesis
  proof (cases c)
    case (Inl e)
    with Pair assms handler_first_fetch_fails[of req s e w1 clean] show ?thesis by simp
  next
    case (Inr f1)
    note fetch = Pair[unfolded Inr]
    show ?thesis
    proof (cases "order_id f1 = JSString (id_param (params req))")
      case False
      with assms handler_mismatch[OF fetch, of clean] show ?thesis by simp
    next
      case True
      let ?s1 = "s\<lparr>world := w1, trace := trace s @ [FirstFetch req]\<rparr>"
      note run = handler_enters_transaction[OF fetch True, of clean]
      obtain rt st where tx: "transaction (transaction_callback req) ?s1 = (rt, st)"
        by (cases "transaction (transaction_callback req) ?s1")
      show ?thesis
      proof (cases rt)
        case (Inl e)
        with run tx assms show ?thesis by (simp add: await_def)
      next
        case (Inr u)
        with run tx assms have rl: "reload clean req st = (Inr body, s')"
          by (simp add: await_def)
        obtain ro wo where rw: "retrieveWithTotals (orderService (scope req)) DefaultManager
            (id_param (params req)) (retrieveConfig req) (req_includes req) (world st) = (ro, wo)"
          by (cases "retrieveWithTotals (orderService (scope req)) DefaultManager
            (id_param (params req)) (retrieveConfig req) (req_includes req) (world st)")
        from rl rw obtain order where o: "ro = Inr order" "body = [(''order'', clean order [])]"
          "world s' = wo"
          by (cases ro) (auto simp: reload_def await_def call_retrieveWithTotals_def invoke_def resolve_def)
        from tx Inr have tx': "transaction (transaction_callback req) ?s1 = (Inr (), st)" by simp
        from tx' fetch transaction_commits[OF tx'] rw o reload_trace[OF rl] show ?thesis
          by (intro exI[of _ order] exI[of _ st]) simp
      qed
    qed
  qed
qed

theorem response_is_cleaned_reloaded_order_witness:
  "\<exists>order committed.
     transaction (transaction_callback
         (example_req ''order_1'' ''ful_1'' (Some IInventoryService)
           (example_refetched (JSString ''sloc_1'') ''variant_2'')))
       \<lparr>world = (False, 0), trace = [Retrieve DefaultManager ''ful_1'' None],
        rejected = [], schedule = []\<rparr>
       = (Inr (), committed)
   \<and> last (trace committed) = TransactionCommit
   \<and> (Inr (if fst (world committed) then ''order_1 canceled'' else ''order_1 fulfilled''),
        world committed) = (Inr order, (True, 3))
   \<and> [(''order'', ''order_1 canceled'')] = [(''order'', order)]"
proof -
  let ?req = "example_req ''order_1'' ''ful_1'' (Some IInventoryService)
           (example_refetched (JSString ''sloc_1'') ''variant_2'')"
  have h: "handler (\<lambda>order exclude. order) ?req example_state
      = (Inr [(''order'', ''order_1 canceled'')],
         \<lparr>world = (True, 3),
          trace = [Retrieve DefaultManager ''ful_1'' None, TransactionBegin,
            CancelFulfillment TransactionManager ''ful_1'',
            Retrieve TransactionManager ''ful_1'' (Some \<lparr>relations = [''items'', ''items.item'']\<rparr>),
            AdjustInventory TransactionManager (JSString ''variant_1'') (JSString ''sloc_1'') 2,
            AdjustInventory TransactionManager (JSString ''variant_2'') (JSString ''sloc_1'') 0,
            AdjustInventory TransactionManager (JSString ''variant_3'') (JSString ''sloc_1'') 1,
            TransactionCommit, RetrieveWithTotals DefaultManager ''order_1'' () ()],
          rejected = [], schedule = []\<rparr>)"
    by (simp add: run_defs example_defs)
  from response_is_cleaned_reloaded_order[OF h] obtain order committed where
    "transaction (transaction_callback ?req)
       (example_state\<lparr>world := snd (retrieve (fulfillmentService (scope ?req)) DefaultManager
                                 (fulfillment_id (params ?req)) None (world example_state)),
          trace := trace example_state @ [FirstFetch ?req]\<rparr>) = (Inr (), committed)"
    "last (trace committed) = TransactionCommit"
    "retrieveWithTotals (orderService (scope ?req)) DefaultManager (id_param (params ?req))
       (retrieveConfig ?req) (req_includes ?req) (world committed)
       = (Inr order, world \<lparr>world = (True, 3),
          trace = [Retrieve DefaultManager ''ful_1'' None, TransactionBegin,
            CancelFulfillment TransactionManager ''ful_1'',
            Retrieve TransactionManager ''ful_1'' (Some \<lparr>relations = [''items'', ''items.item'']\<rparr>),
            AdjustInventory TransactionManager (JSString ''variant_1'') (JSString ''sloc_1'') 2,
            AdjustInventory TransactionManager (JSString ''variant_2'') (JSString ''sloc_1'') 0,
            AdjustInventory TransactionManager (JSString ''variant_3'') (JSString ''sloc_1'') 1,
            TransactionCommit, RetrieveWithTotals DefaultManager ''order_1'' () ()],
          rejected = ([] :: string thrown list), schedule = []\<rparr>)"
    "[(''order'', ''order_1 canceled'')] = [(''order'', (\<lambda>order exclude. order) order [])]"
    by blast
  then show ?thesis
    by (intro exI[of _ order] exI[of _ committed])
       (simp add: example_req_def example_scope_def example_state_def example_first_def)
qed

subsection \<open>Order of the calls\<close>

text \<open>
  Claim C5. A run in which the handler resolves makes its calls in this order: the first
  fetch; then, between the begin and the commit of one transaction and under that
  transaction's manager, \<^verbatim>\<open>cancelFulfillment\<close>, the fetch with the relations
  \<^verbatim>\<open>items\<close> and \<^verbatim>\<open>items.item\<close>, and the \<^verbatim>\<open>adjustInventory\<close> calls (if any); then,
  after the commit, the reload of the order with totals. In every run, resolved or
  rejected, no \<^verbatim>\<open>adjustInventory\<close> call is logged before the \<^verbatim>\<open>cancelFulfillment\<close>
  call. The order is that of the effects on the database, not only of the log: in a run
  that resolves, \<^verbatim>\<open>cancelFulfillment\<close> runs on the database that the first fetch left,
  the second fetch runs on the database that the cancellation left, the promises of the
  adjustments are handed to \<^verbatim>\<open>promiseAll\<close> on the database that the second fetch left
  (or, when the guard is false, nothing is done there), and \<^verbatim>\<open>retrieveWithTotals\<close> runs
  on the database as it is after that. And when \<^verbatim>\<open>cancelFulfillment\<close> rejects, the
  run ends there: the transaction is rolled back and no other call is made.
\<close>

theorem calls_in_order:
  "(\<forall>body. fst (handler clean req s) = Inr body \<longrightarrow>
      (\<exists>adj. (\<forall>c \<in> set adj. is_AdjustInventory c) \<and>
         trace (snd (handler clean req s)) =
           trace s @ [FirstFetch req, TransactionBegin, Cancel req, Refetch req] @ adj
             @ [TransactionCommit, Reload req]))
   \<and> cancel_before_adjust (drop (length (trace s)) (trace (snd (handler clean req s))))
   \<and> (\<forall>body. fst (handler clean req s) = Inr body \<longrightarrow>
        (\<exists>f1 w1 ord w2 f2 w3 s4 order.
           retrieve (fulfillmentService (scope req)) DefaultManager
             (fulfillment_id (params req)) None (world s) = (Inr f1, w1)
         \<and> order_id f1 = JSString (id_param (params req))
         \<and> cancelFulfillment (orderService (scope req)) TransactionManager
             (fulfillment_id (params req)) w1 = (Inr ord, w2)
         \<and> retrieve (fulfillmentService (scope req)) TransactionManager
             (fulfillment_id (params req))
             (Some \<lparr>relations = [''items'', ''items.item'']\<rparr>) w2 = (Inr f2, w3)
         \<and> (if truthy (location_id f2) \<and> inventoryService (scope req) \<noteq> None
            then \<exists>vs. promiseAll
                        (expected_promises (productVariantInventoryService (scope req))
                           TransactionManager f2 (items f2))
                        (s\<lparr>world := w3,
                           trace := trace s @ [FirstFetch req, TransactionBegin, Cancel req,
                             Refetch req]
                             @ expected_calls TransactionManager f2 (items f2)\<rparr>) = (Inr vs, s4)
            else s4 = s\<lparr>world := w3,
                         trace := trace s @ [FirstFetch req, TransactionBegin, Cancel req,
                           Refetch req]\<rparr>)
         \<and> retrieveWithTotals (orderService (scope req)) DefaultManager (id_param (params req))
             (retrieveConfig req) (req_includes req) (world s4)
             = (Inr order, world (snd (handler clean req s)))
         \<and> trace (snd (handler clean req s)) = trace s4 @ [TransactionCommit, Reload req]))
   \<and> (\<forall>f1 w1 e w2.
         retrieve (fulfillmentService (scope req)) DefaultManager
           (fulfillment_id (params req)) None (world s) = (Inr f1, w1)
       \<and> order_id f1 = JSString (id_param (params req))
       \<and> cancelFulfillment (orderService (scope req)) TransactionManager
           (fulfillment_id (params req)) w1 = (Inl e, w2)
       \<longrightarrow> handler clean req s =
             (Inl e, s\<lparr>world := w1,
                trace := trace s @ [FirstFetch req, TransactionBegin, Cancel req,
                  TransactionRollback],
                rejected := rejected s @ [e]\<rparr>))"
proof (intro conjI allI impI)
  obtain r s' where run: "handler clean req s = (r, s')" by (cases "handler clean req s")
  from handler_trace[OF run] obtain new adj where tr: "trace s' = trace s @ new"
    and adj: "\<forall>c \<in> set adj. is_AdjustInventory c"
    and shape: "case r of
        Inl e \<Rightarrow>
          new = [FirstFetch req]
        \<or> new = [FirstFetch req, TransactionBegin, Cancel req, TransactionRollback]
        \<or> new = [FirstFetch req, TransactionBegin, Cancel req, Refetch req] @ adj
                  @ [TransactionRollback]
        \<or> new = [FirstFetch req, TransactionBegin, Cancel req, Refetch req] @ adj
                  @ [TransactionCommit, Reload req]
      | Inr body \<Rightarrow>
          new = [FirstFetch req, TransactionBegin, Cancel req, Refetch req] @ adj
                  @ [TransactionCommit, Reload req]"
    by blast
  have "cancel_before_adjust new"
    using shape by (cases r) auto
  with tr run
  show "cancel_before_adjust (drop (length (trace s)) (trace (snd (handler clean req s))))"
    by simp
  {
    fix body
    assume "fst (handler clean req s) = Inr body"
    with run have "r = Inr body" by simp
    with shape adj tr run
    show "\<exists>adj. (\<forall>c \<in> set adj. is_AdjustInventory c) \<and>
         trace (snd (handler clean req s)) =
           trace s @ [FirstFetch req, TransactionBegin, Cancel req, Refetch req] @ adj
             @ [TransactionCommit, Reload req]"
      by (intro exI[of _ adj]) simp
    from \<open>r = Inr body\<close> run have "handler clean req s = (Inr body, snd (handler clean req s))"
      by simp
    from handler_resolves[OF this]
    show "\<exists>f1 w1 ord w2 f2 w3 s4 order.
           retrieve (fulfillmentService (scope req)) DefaultManager
             (fulfillment_id (params req)) None (world s) = (Inr f1, w1)
         \<and> order_id f1 = JSString (id_param (params req))
         \<and> cancelFulfillment (orderService (scope req)) TransactionManager
             (fulfillment_id (params req)) w1 = (Inr ord, w2)
         \<and> retrieve (fulfillmentService (scope req)) TransactionManager
             (fulfillment_id (params req))
             (Some \<lparr>relations = [''items'', ''items.item'']\<rparr>) w2 = (Inr f2, w3)
         \<and> (if truthy (location_id f2) \<and> inventoryService (scope req) \<noteq> None
            then \<exists>vs. promiseAll
                        (expected_promises (productVariantInventoryService (scope req))
                           TransactionManager f2 (items f2))
                        (s\<lparr>world := w3,
                           trace := trace s @ [FirstFetch req, TransactionBegin, Cancel req,
                             Refetch req]
                             @ expected_calls TransactionManager f2 (items f2)\<rparr>) = (Inr vs, s4)
            else s4 = s\<lparr>world := w3,
                         trace := trace s @ [FirstFetch req, TransactionBegin, Cancel req,
                           Refetch req]\<rparr>)
         \<and> retrieveWithTotals (orderService (scope req)) DefaultManager (id_param (params req))
             (retrieveConfig req) (req_includes req) (world s4)
             = (Inr order, world (snd (handler clean req s)))
         \<and> trace (snd (handler clean req s)) = trace s4 @ [TransactionCommit, Reload req]" .
  }
  {
    fix f1 w1 e w2
    assume "retrieve (fulfillmentService (scope req)) DefaultManager
           (fulfillment_id (params req)) None (world s) = (Inr f1, w1)
       \<and> order_id f1 = JSString (id_param (params req))
       \<and> cancelFulfillment (orderService (scope req)) TransactionManager
           (fulfillment_id (params req)) w1 = (Inl e, w2)"
    then show "handler clean req s =
             (Inl e, s\<lparr>world := w1,
                trace := trace s @ [FirstFetch req, TransactionBegin, Cancel req,
                  TransactionRollback],
                rejected := rejected s @ [e]\<rparr>)"
      using handler_cancel_fails[of req s f1 w1 e w2 clean] by blast
  }
qed

theorem calls_in_order_witness:
  "(\<exists>adj. (\<forall>c \<in> set adj. is_AdjustInventory c) \<and>
      trace (snd (handler (\<lambda>order exclude. order)
        (example_req ''order_1'' ''ful_1'' (Some IInventoryService)
           (example_refetched (JSString ''sloc_1'') ''variant_2'')) example_state)) =
      [Retrieve DefaultManager ''ful_1'' None, TransactionBegin,
       CancelFulfillment TransactionManager ''ful_1'',
       Retrieve TransactionManager ''ful_1'' (Some \<lparr>relations = [''items'', ''items.item'']\<rparr>)]
      @ adj @ [TransactionCommit, RetrieveWithTotals DefaultManager ''order_1'' () ()])
   \<and> cancel_before_adjust
       (trace (snd (handler (\<lambda>order exclude. order)
        (example_req ''order_1'' ''ful_1'' (Some IInventoryService)
           (example_refetched (JSString ''sloc_1'') ''variant_2'')) example_state)))
   \<and> world (snd (handler (\<lambda>order exclude. order)
        (example_req ''order_1'' ''ful_1'' (Some IInventoryService)
           (example_refetched (JSString ''sloc_1'') ''variant_2'')) example_state)) = (True, 3)"
proof -
  let ?req = "example_req ''order_1'' ''ful_1'' (Some IInventoryService)
           (example_refetched (JSString ''sloc_1'') ''variant_2'')"
  let ?run = "handler (\<lambda>order exclude. order) ?req example_state"
  have h: "fst ?run = Inr [(''order'', ''order_1 canceled'')]"
    by (simp add: run_defs example_defs)
  note inst = calls_in_order[of "\<lambda>order exclude. order" ?req example_state]
  note a = inst[THEN conjunct1, rule_format, OF h]
  note b = inst[THEN conjunct2, THEN conjunct1]
  from inst[THEN conjunct2, THEN conjunct2, THEN conjunct1, rule_format, OF h]
  obtain f1 w1 ord w2 f2 w3 s4 order where
    c1: "retrieve (fulfillmentService (scope ?req)) DefaultManager
           (fulfillment_id (params ?req)) None (world example_state) = (Inr f1, w1)"
    and c2: "cancelFulfillment (orderService (scope ?req)) TransactionManager
           (fulfillment_id (params ?req)) w1 = (Inr ord, w2)"
    and c3: "retrieve (fulfillmentService (scope ?req)) TransactionManager
           (fulfillment_id (params ?req))
           (Some \<lparr>relations = [''items'', ''items.item'']\<rparr>) w2 = (Inr f2, w3)"
    and c4: "if truthy (location_id f2) \<and> inventoryService (scope ?req) \<noteq> None
            then \<exists>vs. promiseAll
                        (expected_promises (productVariantInventoryService (scope ?req))
                           TransactionManager f2 (items f2))
                        (example_state\<lparr>world := w3,
                           trace := trace example_state @ [FirstFetch ?req, TransactionBegin,
                             Cancel ?req, Refetch ?req]
                             @ expected_calls TransactionManager f2 (items f2)\<rparr>) = (Inr vs, s4)
            else s4 = example_state\<lparr>world := w3,
                         trace := trace example_state @ [FirstFetch ?req, TransactionBegin,
                           Cancel ?req, Refetch ?req]\<rparr>"
    and c5: "retrieveWithTotals (orderService (scope ?req)) DefaultManager
           (id_param (params ?req)) (retrieveConfig ?req) (req_includes ?req) (world s4)
             = (Inr order, world (snd ?run))"
    by blast
  from c1 have w1: "w1 = (False, 0)" by (auto simp: example_defs)
  from c2 w1 have w2: "w2 = (True, 0)" by (auto simp: example_defs)
  from c3 w2 have f2: "f2 = example_refetched (JSString ''sloc_1'') ''variant_2''"
    and w3: "w3 = (True, 0)" by (auto simp: example_defs)
  from c4 f2 w3 have "world s4 = (True, 3)"
    by (auto simp: example_defs expected_promises_def expected_calls_def promiseAll_def
        allSettled_def settle_def)
  with c5 have "world (snd ?run) = (True, 3)" by (auto simp: example_defs)
  with a b show ?thesis by (simp add: example_req_def example_state_def)
qed

subsection \<open>Error propagation\<close>

text \<open>
  Claim C7, as the spec states it, fails: not every error raised by a collaborator
  leaves the handler. When two inventory adjustments reject, \<^verbatim>\<open>promiseAll\<close> rejects with
  the reason of one of them and the other is dropped. In the example both
  \<open>variant_bad\<close> and \<open>variant_gone\<close> reject; the handler rejects with the error of
  the former, and the error of the latter, which a collaborator has raised, is not what
  the handler rejects with.
\<close>

theorem not_every_collaborator_error_propagates:
  "fst (adjustInventory
          (productVariantInventoryService
             (scope (example_req ''order_1'' ''ful_1'' (Some IInventoryService)
                       example_two_failures)))
          TransactionManager (JSString ''variant_gone'') (JSString ''sloc_1'') 1 (True, 100))
     = Inl (Other ''no such variant'')
   \<and> rejected (snd (handler (\<lambda>order exclude. order)
        (example_req ''order_1'' ''ful_1'' (Some IInventoryService) example_two_failures)
        example_state))
     = [Other ''no stock level'', Other ''no such variant'']
   \<and> fst (handler (\<lambda>order exclude. order)
        (example_req ''order_1'' ''ful_1'' (Some IInventoryService) example_two_failures)
        example_state)
     = Inl (Other ''no stock level'')
   \<and> fst (handler (\<lambda>order exclude. order)
        (example_req ''order_1'' ''ful_1'' (Some IInventoryService) example_two_failures)
        example_state)
     \<noteq> Inl (Other ''no such variant'')"
  by (simp add: run_defs example_defs)

text \<open>
  Claim C7, amended. The ownership check is the only error of the handler's own making,
  and the handler neither catches, wraps nor replaces a rejection of a collaborator:
  every run either resolves, no collaborator call having been rejected; or rejects with
  the \<open>NOT_FOUND\<close> error of the ownership check, no collaborator call having been
  rejected; or rejects with a value that a collaborator call of the run was rejected
  with, unmodified. When the first fetch, the cancellation, the second fetch or the
  reload of the order rejects, the handler rejects with that very value. When inventory
  adjustments reject, the handler rejects with the reason of the first rejected
  adjustment in item order, whatever the order in which the adjustments were settled;
  the rejections of the other adjustments are dropped by \<^verbatim>\<open>promiseAll\<close>.
\<close>

theorem rejections_propagate_first_in_item_order:
  assumes "handler clean req s = (r, s')"
  shows "((\<exists>body. r = Inr body \<and> rejected s' = rejected s)
        \<or> (r = Inl (MedusaError NOT_FOUND
                      (not_found_message (fulfillment_id (params req)) (id_param (params req))))
           \<and> rejected s' = rejected s
           \<and> (\<exists>f w. retrieve (fulfillmentService (scope req)) DefaultManager
                        (fulfillment_id (params req)) None (world s) = (Inr f, w)
                    \<and> order_id f \<noteq> JSString (id_param (params req))))
        \<or> (\<exists>e es. r = Inl e \<and> rejected s' = rejected s @ es \<and> e \<in> set es))
   \<and> (\<forall>e w1.
         retrieve (fulfillmentService (scope req)) DefaultManager
           (fulfillment_id (params req)) None (world s) = (Inl e, w1)
       \<longrightarrow> r = Inl e)
   \<and> (\<forall>f1 w1 e w2.
         retrieve (fulfillmentService (scope req)) DefaultManager
           (fulfillment_id (params req)) None (world s) = (Inr f1, w1)
       \<and> order_id f1 = JSString (id_param (params req))
       \<and> cancelFulfillment (orderService (scope req)) TransactionManager
           (fulfillment_id (params req)) w1 = (Inl e, w2)
       \<longrightarrow> r = Inl e)
   \<and> (\<forall>f1 w1 ord w2 e w3.
         retrieve (fulfillmentService (scope req)) DefaultManager
           (fulfillment_id (params req)) None (world s) = (Inr f1, w1)
       \<and> order_id f1 = JSString (id_param (params req))
       \<and> cancelFulfillment (orderService (scope req)) TransactionManager
           (fulfillment_id (params req)) w1 = (Inr ord, w2)
       \<and> retrieve (fulfillmentService (scope req)) TransactionManager
           (fulfillment_id (params req))
           (Some \<lparr>relations = [''items'', ''items.item'']\<rparr>) w2 = (Inl e, w3)
       \<longrightarrow> r = Inl e)
   \<and> (\<forall>f1 w1 ord w2 f2 w3 ps s4 e es.
         retrieve (fulfillmentService (scope req)) DefaultManager
           (fulfillment_id (params req)) None (world s) = (Inr f1, w1)
       \<and> order_id f1 = JSString (id_param (params req))
       \<and> cancelFulfillment (orderService (scope req)) TransactionManager
           (fulfillment_id (params req)) w1 = (Inr ord, w2)
       \<and> retrieve (fulfillmentService (scope req)) TransactionManager
           (fulfillment_id (params req))
           (Some \<lparr>relations = [''items'', ''items.item'']\<rparr>) w2 = (Inr f2, w3)
       \<and> truthy (location_id f2) \<and> inventoryService (scope req) \<noteq> None
       \<and> allSettled
           (expected_promises (productVariantInventoryService (scope req)) TransactionManager
              f2 (items f2))
           (s\<lparr>world := w3,
              trace := trace s @ [FirstFetch req, TransactionBegin, Cancel req, Refetch req]
                @ expected_calls TransactionManager f2 (items f2)\<rparr>) = (ps, s4)
       \<and> rejections (settled ps) = e # es
       \<longrightarrow> r = Inl e \<and> rejected s' = rejected s4
           \<and> mset (rejected s') = mset (rejected s) + mset (e # es))
   \<and> (\<forall>f1 w1 u st e w.
         retrieve (fulfillmentService (scope req)) DefaultManager
           (fulfillment_id (params req)) None (world s) = (Inr f1, w1)
       \<and> order_id f1 = JSString (id_param (params req))
       \<and> transaction (transaction_callback req)
           (s\<lparr>world := w1, trace := trace s @ [FirstFetch req]\<rparr>) = (Inr u, st)
       \<and> retrieveWithTotals (orderService (scope req)) DefaultManager (id_param (params req))
           (retrieveConfig req) (req_includes req) (world st) = (Inl e, w)
       \<longrightarrow> r = Inl e)"
proof (intro conjI allI impI)
  show "(\<exists>body. r = Inr body \<and> rejected s' = rejected s)
        \<or> (r = Inl (MedusaError NOT_FOUND
                      (not_found_message (fulfillment_id (params req)) (id_param (params req))))
           \<and> rejected s' = rejected s
           \<and> (\<exists>f w. retrieve (fulfillmentService (scope req)) DefaultManager
                        (fulfillment_id (params req)) None (world s) = (Inr f, w)
                    \<and> order_id f \<noteq> JSString (id_param (params req))))
        \<or> (\<exists>e es. r = Inl e \<and> rejected s' = rejected s @ es \<and> e \<in> set es)"
  proof (cases "retrieve (fulfillmentService (scope req)) DefaultManager
                  (fulfillment_id (params req)) None (world s)")
    case (Pair c w1)
    show ?thesis
    proof (cases c)
      case (Inl e)
      with Pair assms handler_first_fetch_fails[of req s e w1 clean]
      have "r = Inl e \<and> rejected s' = rejected s @ [e] \<and> e \<in> set [e]" by auto
      then show ?thesis by blast
    next
      case (Inr f1)
      note fetch = Pair[unfolded Inr]
      show ?thesis
      proof (cases "order_id f1 = JSString (id_param (params req))")
        case False
        with assms handler_mismatch[OF fetch, of clean]
        have "r = Inl (MedusaError NOT_FOUND
                       (not_found_message (fulfillment_id (params req)) (id_param (params req))))
            \<and> rejected s' = rejected s" by auto
        with fetch False show ?thesis by blast
      next
        case True
        let ?s1 = "s\<lparr>world := w1, trace := trace s @ [FirstFetch req]\<rparr>"
        from handler_enters_transaction[OF fetch True, of clean] assms
        have "await (transaction (transaction_callback req)) (\<lambda>_. reload clean req) ?s1 = (r, s')"
          by simp
        from propagatesD[OF propagates_after_fetch this]
        show ?thesis by auto
      qed
    qed
  qed
next
  fix e w1
  assume "retrieve (fulfillmentService (scope req)) DefaultManager
           (fulfillment_id (params req)) None (world s) = (Inl e, w1)"
  from handler_first_fetch_fails[OF this, of clean] assms show "r = Inl e" by simp
next
  fix f1 w1 e w2
  assume "retrieve (fulfillmentService (scope req)) DefaultManager
           (fulfillment_id (params req)) None (world s) = (Inr f1, w1)
       \<and> order_id f1 = JSString (id_param (params req))
       \<and> cancelFulfillment (orderService (scope req)) TransactionManager
           (fulfillment_id (params req)) w1 = (Inl e, w2)"
  then show "r = Inl e"
    using handler_cancel_fails[of req s f1 w1 e w2 clean] assms by auto
next
  fix f1 w1 ord w2 e w3
  assume "retrieve (fulfillmentService (scope req)) DefaultManager
           (fulfillment_id (params req)) None (world s) = (Inr f1, w1)
       \<and> order_id f1 = JSString (id_param (params req))
       \<and> cancelFulfillment (orderService (scope req)) TransactionManager
           (fulfillment_id (params req)) w1 = (Inr ord, w2)
       \<and> retrieve (fulfillmentService (scope req)) TransactionManager
           (fulfillment_id (params req))
           (Some \<lparr>relations = [''items'', ''items.item'']\<rparr>) w2 = (Inl e, w3)"
  then show "r = Inl e"
    using handler_refetch_fails[of req s f1 w1 ord w2 e w3 clean] assms by auto
next
  fix f1 w1 ord w2 f2 w3 ps s4 e es
  assume a: "retrieve (fulfillmentService (scope req)) DefaultManager
           (fulfillment_id (params req)) None (world s) = (Inr f1, w1)
       \<and> order_id f1 = JSString (id_param (params req))
       \<and> cancelFulfillment (orderService (scope req)) TransactionManager
           (fulfillment_id (params req)) w1 = (Inr ord, w2)
       \<and> retrieve (fulfillmentService (scope req)) TransactionManager
           (fulfillment_id (params req))
           (Some \<lparr>relations = [''items'', ''items.item'']\<rparr>) w2 = (Inr f2, w3)
       \<and> truthy (location_id f2) \<and> inventoryService (scope req) \<noteq> None
       \<and> allSettled
           (expected_promises (productVariantInventoryService (scope req)) TransactionManager
              f2 (items f2))
           (s\<lparr>world := w3,
              trace := trace s @ [FirstFetch req, TransactionBegin, Cancel req, Refetch req]
                @ expected_calls TransactionManager f2 (items f2)\<rparr>) = (ps, s4)
       \<and> rejections (settled ps) = e # es"
  let ?S = "s\<lparr>world := w3,
              trace := trace s @ [FirstFetch req, TransactionBegin, Cancel req, Refetch req]
                @ expected_calls TransactionManager f2 (items f2)\<rparr>"
  let ?P = "expected_promises (productVariantInventoryService (scope req)) TransactionManager
              f2 (items f2)"
  from a have g: "truthy (location_id f2) \<and> inventoryService (scope req) \<noteq> None" by simp
  from a have st: "allSettled ?P ?S = (ps, s4)" and rj: "rejections (settled ps) = e # es"
    by simp_all
  from a handler_adjust_rejects[of req s f1 w1 ord w2 f2 w3 ps s4 e es clean] g assms
  have res: "r = Inl e" "rejected s' = rejected s4" by auto
  from st have "fold settle (schedule ?S @ [0..<length ?P]) (?P, ?S) = (ps, s4)"
    by (simp add: allSettled_def)
  from fold_settle_log[OF this] rj obtain log where
    "rejected s4 = rejected s @ log" "mset (e # es) = mset log"
    by (auto simp: expected_promises_no_rejections)
  with res have all: "r = Inl e \<and> rejected s' = rejected s4
      \<and> mset (rejected s') = mset (rejected s) + mset (e # es)"
    by simp
  show "r = Inl e" by (rule all[THEN conjunct1])
  show "rejected s' = rejected s4" by (rule all[THEN conjunct2, THEN conjunct1])
  show "mset (rejected s') = mset (rejected s) + mset (e # es)"
    by (rule all[THEN conjunct2, THEN conjunct2])
next
  fix f1 w1 u st e w
  assume "retrieve (fulfillmentService (scope req)) DefaultManager
           (fulfillment_id (params req)) None (world s) = (Inr f1, w1)
       \<and> order_id f1 = JSString (id_param (params req))
       \<and> transaction (transaction_callback req)
           (s\<lparr>world := w1, trace := trace s @ [FirstFetch req]\<rparr>) = (Inr u, st)
       \<and> retrieveWithTotals (orderService (scope req)) DefaultManager (id_param (params req))
           (retrieveConfig req) (req_includes req) (world st) = (Inl e, w)"
  then show "r = Inl e"
    using handler_reload_rejects[of req s f1 w1 u st e w clean] assms by auto
qed

theorem rejections_propagate_first_in_item_order_witness:
  "fst (handler (\<lambda>order exclude. order)
        (example_req ''order_1'' ''ful_1'' (Some IInventoryService) example_two_failures)
        (example_state\<lparr>schedule := [1]\<rparr>))
     = Inl (Other ''no stock level'')
   \<and> rejected (snd (handler (\<lambda>order exclude. order)
        (example_req ''order_1'' ''ful_1'' (Some IInventoryService) example_two_failures)
        (example_state\<lparr>schedule := [1]\<rparr>)))
     = [Other ''no such variant'', Other ''no stock level'']"
proof -
  let ?req = "example_req ''order_1'' ''ful_1'' (Some IInventoryService) example_two_failures"
  let ?s = "example_state\<lparr>schedule := [1]\<rparr>"
  let ?ps = "[Settled (Inl (Other ''no stock level'')), Settled (Inl (Other ''no such variant''))]
    :: (bool \<times> int, string, unit) promise list"
  let ?s4 = "\<lparr>world = (True, 100),
       trace = [Retrieve DefaultManager ''ful_1'' None, TransactionBegin,
         CancelFulfillment TransactionManager ''ful_1'',
         Retrieve TransactionManager ''ful_1'' (Some \<lparr>relations = [''items'', ''items.item'']\<rparr>),
         AdjustInventory TransactionManager (JSString ''variant_bad'') (JSString ''sloc_1'') 1,
         AdjustInventory TransactionManager (JSString ''variant_gone'') (JSString ''sloc_1'') 1],
       rejected = [Other ''no such variant'', Other ''no stock level''],
       schedule = [1]\<rparr> :: (bool \<times> int, string, unit, unit) state"
  obtain r s' where run: "handler (\<lambda>order exclude. order) ?req ?s = (r, s')"
    by (cases "handler (\<lambda>order exclude. order) ?req ?s")
  have h: "retrieve (fulfillmentService (scope ?req)) DefaultManager
           (fulfillment_id (params ?req)) None (world ?s) = (Inr example_first, (False, 0))
       \<and> order_id example_first = JSString (id_param (params ?req))
       \<and> cancelFulfillment (orderService (scope ?req)) TransactionManager
           (fulfillment_id (params ?req)) (False, 0) = (Inr ''order_1'', (True, 0))
       \<and> retrieve (fulfillmentService (scope ?req)) TransactionManager
           (fulfillment_id (params ?req))
           (Some \<lparr>relations = [''items'', ''items.item'']\<rparr>) (True, 0)
           = (Inr example_two_failures, (True, 0))
       \<and> truthy (location_id example_two_failures) \<and> inventoryService (scope ?req) \<noteq> None
       \<and> allSettled
           (expected_promises (productVariantInventoryService (scope ?req)) TransactionManager
              example_two_failures (items example_two_failures))
           (?s\<lparr>world := (True, 0),
              trace := trace ?s @ [FirstFetch ?req, TransactionBegin, Cancel ?req, Refetch ?req]
                @ expected_calls TransactionManager example_two_failures
                    (items example_two_failures)\<rparr>) = (?ps, ?s4)
       \<and> rejections (settled ?ps) = Other ''no stock level'' # [Other ''no such variant'']"
    by (simp add: example_defs expected_promises_def expected_calls_def allSettled_def
        settle_def)
  from rejections_propagate_first_in_item_order[OF run, THEN conjunct2, THEN conjunct2,
      THEN conjunct2, THEN conjunct2, THEN conjunct1, rule_format, OF h]
  have "r = Inl (Other ''no stock level'')" "rejected s' = rejected ?s4" by simp_all
  with run show ?thesis by simp
qed

end
